theory Spec2Isabelle
  imports Main "HOL-Library.Sublist" "HOL-Library.AList"
begin

section \<open>Python values, exceptions and string primitives\<close>

text \<open>
  The embedding follows Python 3. A Python \<open>str\<close> is a \<^typ>\<open>string\<close>; its characters are
  the code points below 256. Every \<open>raise\<close> of the source is the \<open>Inl\<close> branch of a sum.
\<close>

datatype error =
  IndexError | KeyError | ValueError | TypeError | AttributeError
  | ZeroDivisionError | OverflowError | StopIteration | FetchError

text \<open>
  A PyQuery selection: its \<open>.text()\<close>, its \<open>str()\<close>, its \<open>.items()\<close> (one selection per
  matched element; \<open>len\<close> counts them) and what calling it with a selector returns.
\<close>

datatype pq = PQ (pq_text: string) (pq_str: string) (pq_items: "pq list")
  (pq_sub: "(string \<times> pq) list")

definition pq_empty :: pq where
  "pq_empty = PQ [] [] [] []"

definition pq_call :: "pq \<Rightarrow> string \<Rightarrow> pq" where
  "pq_call d sel = (case map_of (pq_sub d) sel of Some r \<Rightarrow> r | None \<Rightarrow> pq_empty)"

definition pq_len :: "pq \<Rightarrow> nat" where
  "pq_len d = length (pq_items d)"

text \<open>The values an attribute of a Game or Boxscore instance holds.\<close>

datatype pyval = PNone | PStr string | PList "string list" | PInt int | PTag pq

text \<open>\<open>str.isspace\<close> on one character (code points below 256).\<close>

definition py_isspace :: "char \<Rightarrow> bool" where
  "py_isspace c = (c \<in> set [CHR 0x09, CHR 0x0A, CHR 0x0B, CHR 0x0C, CHR 0x0D,
     CHR 0x1C, CHR 0x1D, CHR 0x1E, CHR 0x1F, CHR 0x20, CHR 0x85, CHR 0xA0])"

text \<open>\<open>str.strip()\<close>.\<close>

definition py_strip :: "string \<Rightarrow> string" where
  "py_strip s = rev (dropWhile py_isspace (rev (dropWhile py_isspace s)))"

text \<open>\<open>a in b\<close> on two strings: \<open>a\<close> occurs in \<open>b\<close> as a contiguous run.\<close>

fun str_in :: "string \<Rightarrow> string \<Rightarrow> bool" where
  "str_in a [] = (a = [])"
| "str_in a (c # cs) = (prefix a (c # cs) \<or> str_in a cs)"

text \<open>\<open>str.split(sep)\<close> for a one-character separator: never an empty list.\<close>

fun py_split :: "char \<Rightarrow> string \<Rightarrow> string list" where
  "py_split sep [] = [[]]"
| "py_split sep (c # cs) =
     (if c = sep then [] # py_split sep cs
      else (case py_split sep cs of
              [] \<Rightarrow> [[c]]
            | w # ws \<Rightarrow> (c # w) # ws))"

text \<open>\<open>str.lower()\<close>: the 26 letters, and the upper-case letters of Latin-1.\<close>

definition py_lower_char :: "char \<Rightarrow> char" where
  "py_lower_char c =
     (let n = (of_char c :: nat)
      in if (65 \<le> n \<and> n \<le> 90) \<or> (192 \<le> n \<and> n \<le> 222 \<and> n \<noteq> 215)
         then char_of (n + 32) else c)"

definition py_lower :: "string \<Rightarrow> string" where
  "py_lower s = map py_lower_char s"

text \<open>List indexing \<open>xs[i]\<close>: a negative index counts from the end.\<close>

definition py_getitem :: "'a list \<Rightarrow> int \<Rightarrow> error + 'a" where
  "py_getitem xs i =
     (if 0 \<le> i \<and> i < int (length xs) then Inr (xs ! nat i)
      else if i < 0 \<and> - int (length xs) \<le> i then Inr (xs ! nat (int (length xs) + i))
      else Inl IndexError)"

text \<open>Slices \<open>xs[:i]\<close> and \<open>xs[i:]\<close>: a negative bound counts from the end, and is clamped.\<close>

definition slice_bound :: "'a list \<Rightarrow> int \<Rightarrow> nat" where
  "slice_bound xs i = (if i < 0 then nat (int (length xs) + i) else nat i)"

definition py_slice_to :: "'a list \<Rightarrow> int \<Rightarrow> 'a list" where
  "py_slice_to xs i = take (slice_bound xs i) xs"

definition py_slice_from :: "'a list \<Rightarrow> int \<Rightarrow> 'a list" where
  "py_slice_from xs i = drop (slice_bound xs i) xs"

subsection \<open>\<open>int(str)\<close>\<close>

text \<open>
  \<open>int(x)\<close> on a string, base 10. The whitespace \<open>int\<close> strips from both ends is not that of
  \<open>str.strip\<close>: of the characters below 128 only the tab, the newline, the vertical tab, the
  form feed, the carriage return and the space go (the separators 0x1C to 0x1F stay, and make
  the string no number); above, the whitespace of Unicode goes. One sign is allowed, then
  come decimal digits, where single underscores may stand between two digits. Anything else
  raises \<open>ValueError\<close>, and so does a numeral of more than 4300 digits (the default of
  \<open>sys.int_info.default_max_str_digits\<close> since Python 3.11; leading zeros count, underscores
  do not).
\<close>

definition int_isspace :: "char \<Rightarrow> bool" where
  "int_isspace c = (c \<in> set [CHR 0x09, CHR 0x0A, CHR 0x0B, CHR 0x0C, CHR 0x0D, CHR 0x20,
     CHR 0x85, CHR 0xA0])"

definition int_strip :: "string \<Rightarrow> string" where
  "int_strip s = rev (dropWhile int_isspace (rev (dropWhile int_isspace s)))"

definition int_max_str_digits :: nat where
  "int_max_str_digits = 4300"

definition digit_val :: "char \<Rightarrow> int option" where
  "digit_val c =
     map_of [(CHR 0x30, 0), (CHR 0x31, 1), (CHR 0x32, 2), (CHR 0x33, 3), (CHR 0x34, 4),
             (CHR 0x35, 5), (CHR 0x36, 6), (CHR 0x37, 7), (CHR 0x38, 8), (CHR 0x39, 9)] c"

fun digits_val :: "int \<Rightarrow> string \<Rightarrow> int option" where
  "digits_val acc [] = Some acc"
| "digits_val acc [c] =
     (case digit_val c of None \<Rightarrow> None | Some v \<Rightarrow> Some (acc * 10 + v))"
| "digits_val acc (c # d # ds) =
     (if c = CHR ''_''
      then (case digit_val d of None \<Rightarrow> None | Some v \<Rightarrow> digits_val (acc * 10 + v) ds)
      else (case digit_val c of None \<Rightarrow> None | Some v \<Rightarrow> digits_val (acc * 10 + v) (d # ds)))"

definition py_int_digits :: "string \<Rightarrow> int option" where
  "py_int_digits s =
     (case s of
        [] \<Rightarrow> None
      | c # cs \<Rightarrow>
          (case digit_val c of
             None \<Rightarrow> None
           | Some v \<Rightarrow>
               if int_max_str_digits < length (filter (\<lambda>d. d \<noteq> CHR ''_'') s) then None
               else digits_val v cs))"

definition py_int :: "string \<Rightarrow> error + int" where
  "py_int x =
     (let t = int_strip x;
          r = (case t of
                 [] \<Rightarrow> None
               | c # cs \<Rightarrow>
                   if c = CHR ''-'' then map_option uminus (py_int_digits cs)
                   else if c = CHR ''+'' then py_int_digits cs
                   else py_int_digits t)
      in case r of None \<Rightarrow> Inl ValueError | Some n \<Rightarrow> Inr n)"

section \<open>Instances as attribute dictionaries\<close>

text \<open>
  \<open>self.__dict__\<close> is an association list in insertion order; \<open>setattr\<close> on a present key
  keeps its place, a new key goes last; reading a missing attribute raises.
\<close>

type_synonym pyobj = "(string \<times> pyval) list"

definition getattr :: "pyobj \<Rightarrow> string \<Rightarrow> error + pyval" where
  "getattr self name = (case map_of self name of None \<Rightarrow> Inl AttributeError | Some v \<Rightarrow> Inr v)"

definition setattr :: "pyobj \<Rightarrow> string \<Rightarrow> pyval \<Rightarrow> pyobj" where
  "setattr self name v = AList.update name v self"

section \<open>nhl/boxscore.py: the aggregation decorator\<close>

text \<open>The loop \<open>for x in value_subset: try: num += int(x) except ValueError: continue\<close>.\<close>

fun sum_cells :: "int \<Rightarrow> string list \<Rightarrow> int" where
  "sum_cells num [] = num"
| "sum_cells num (x # xs) =
     (case py_int x of
        Inr n \<Rightarrow> sum_cells (num + n) xs
      | Inl e \<Rightarrow> sum_cells num xs)"

text \<open>
  What the loop iterates over: a list gives its cells, a string its characters; \<open>None\<close>
  cannot be sliced. A PyQuery selection gives elements, which \<open>int\<close> refuses.
\<close>

definition nhl_sum_subset :: "pyval \<Rightarrow> bool \<Rightarrow> int \<Rightarrow> error + int" where
  "nhl_sum_subset v home index =
     (case v of
        PList cells \<Rightarrow>
          Inr (sum_cells 0 (if home then py_slice_from cells index else py_slice_to cells index))
      | PStr s \<Rightarrow>
          (let cells = map (\<lambda>c. [c]) s
           in Inr (sum_cells 0
                (if home then py_slice_from cells index else py_slice_to cells index)))
      | PTag p \<Rightarrow>
          (if (if home then py_slice_from (pq_items p) index else py_slice_to (pq_items p) index)
              = [] then Inr 0 else Inl TypeError)
      | _ \<Rightarrow> Inl TypeError)"

text \<open>
  \<open>nhl_int_property_decorator(func)\<close>: \<open>fname\<close> is \<open>func.__name__\<close>, \<open>func\<close> the wrapped
  getter. The two counts are only ever set from \<open>len\<close>, so they are integers where they
  exist; for any other value the model answers \<open>TypeError\<close>.
\<close>

definition goalie_names :: "string list" where
  "goalie_names = [''away_saves'', ''away_shutout'', ''home_saves'', ''home_shutout'']"

definition nhl_int_property_decorator ::
  "string \<Rightarrow> (pyobj \<Rightarrow> error + pyval) \<Rightarrow> pyobj \<Rightarrow> error + int" where
  "nhl_int_property_decorator fname func self =
     (case func self of
        Inl e \<Rightarrow> Inl e
      | Inr v \<Rightarrow>
          (case getattr self ''_away_skaters'' of
             Inl e \<Rightarrow> Inl e
           | Inr num_skaters \<Rightarrow>
               (case getattr self ''_away_goalies'' of
                  Inl e \<Rightarrow> Inl e
                | Inr num_goalies \<Rightarrow>
                    (case (if fname \<in> set goalie_names then num_goalies else num_skaters) of
                       PInt index \<Rightarrow> nhl_sum_subset v (str_in ''home'' fname) index
                     | _ \<Rightarrow> Inl TypeError))))"

text \<open>The fourteen decorated getters: each returns its own attribute.\<close>

definition nhl_accessor :: "string \<Rightarrow> pyobj \<Rightarrow> error + int" where
  "nhl_accessor fname self =
     nhl_int_property_decorator fname (\<lambda>s. getattr s (CHR ''_'' # fname)) self"

definition away_skater_fields :: "string list" where
  "away_skater_fields = [''away_game_winning_goals'', ''away_even_strength_assists'',
     ''away_power_play_assists'', ''away_short_handed_assists'']"

definition home_skater_fields :: "string list" where
  "home_skater_fields = [''home_game_winning_goals'', ''home_even_strength_assists'',
     ''home_power_play_assists'', ''home_short_handed_assists'']"

definition away_goalie_fields :: "string list" where
  "away_goalie_fields = [''away_saves'', ''away_shutout'']"

definition home_goalie_fields :: "string list" where
  "home_goalie_fields = [''home_saves'', ''home_shutout'']"

text \<open>The cells that parse as integers, as integers, in order.\<close>

definition parsed_cells :: "string list \<Rightarrow> int list" where
  "parsed_cells cells = List.map_filter (\<lambda>x. case py_int x of Inr n \<Rightarrow> Some n | Inl e \<Rightarrow> None) cells"

section \<open>Regular expressions: the fragment \<open>re.sub\<close> is used with\<close>

text \<open>
  The patterns of the source are sequences of single-character atoms, some under a greedy
  star. \<open>.\<close> matches every character but the newline. \<open>match_here p s\<close> is \<open>re.match\<close> at the
  start of \<open>s\<close>: what is left of \<open>s\<close> after the match the backtracking matcher finds first
  (a star takes as many characters as it can and gives them back one at a time).
\<close>

datatype atom = Chr char | Dot

datatype item = One atom | Star atom

fun atom_matches :: "atom \<Rightarrow> char \<Rightarrow> bool" where
  "atom_matches (Chr a) c = (a = c)"
| "atom_matches Dot c = (c \<noteq> CHR 0x0A)"

fun match_here :: "item list \<Rightarrow> string \<Rightarrow> string option" where
  "match_here [] s = Some s"
| "match_here (One a # p) [] = None"
| "match_here (One a # p) (c # s) = (if atom_matches a c then match_here p s else None)"
| "match_here (Star a # p) [] = match_here p []"
| "match_here (Star a # p) (c # s) =
     (if atom_matches a c
      then (case match_here (Star a # p) s of
              Some r \<Rightarrow> Some r
            | None \<Rightarrow> match_here p (c # s))
      else match_here p (c # s))"

text \<open>
  \<open>re.sub(pattern, '', s)\<close>: scanning from the left, every match is deleted and the scan
  goes on after it; where no match starts, or only an empty one, the character is kept.
\<close>

function re_sub_empty :: "item list \<Rightarrow> string \<Rightarrow> string" where
  "re_sub_empty p [] = []"
| "re_sub_empty p (c # s) =
     (case match_here p (c # s) of
        None \<Rightarrow> c # re_sub_empty p s
      | Some r \<Rightarrow>
          if length r < length (c # s) then re_sub_empty p r else c # re_sub_empty p s)"
  by pat_completeness auto
termination
  by (relation "measure (\<lambda>(p, s). length s)") auto

definition literal :: "string \<Rightarrow> item list" where
  "literal s = map (\<lambda>c. One (Chr c)) s"

text \<open>\<open>r'.*/boxscores/'\<close> and \<open>r'\.html.*'\<close>.\<close>

definition boxscores_prefix_re :: "item list" where
  "boxscores_prefix_re = Star Dot # literal ''/boxscores/''"

definition html_suffix_re :: "item list" where
  "html_suffix_re = literal ''.html'' @ [Star Dot]"

text \<open>\<open>Boxscores._get_boxscore_uri(url)\<close>; \<open>str(url)\<close> is \<open>pq_str url\<close>.\<close>

definition get_boxscore_uri :: "pq \<Rightarrow> string" where
  "get_boxscore_uri url =
     (let uri = re_sub_empty boxscores_prefix_re (pq_str url);
          uri = py_strip (re_sub_empty html_suffix_re uri)
      in uri)"

text \<open>The double quote, for the selectors and markers that contain one.\<close>

definition dq :: string where
  "dq = [CHR 0x22]"

definition box_score_selector :: string where
  "box_score_selector = ''td[data-stat='' @ dq @ ''box_score_text'' @ dq @ '']:first''"

text \<open>\<open>Game._parse_boxscore(game_data)\<close> in nba/schedule.py.\<close>

definition Game_parse_boxscore :: "pyobj \<Rightarrow> pq \<Rightarrow> pyobj" where
  "Game_parse_boxscore self game_data =
     (let boxscore = pq_call game_data box_score_selector;
          boxscore = re_sub_empty boxscores_prefix_re (pq_str boxscore);
          boxscore = re_sub_empty html_suffix_re boxscore
      in setattr self ''_boxscore'' (PStr boxscore))"

section \<open>nhl/boxscore.py: building a Boxscore\<close>

text \<open>
  What the module takes from files that are not among the sources: the tables of
  nhl/constants.py, the page fetch, and the helpers of utils.py and decorators.py. They are
  the fields of an environment, and every theorem holds for every environment.
  \<^item> \<open>fetch uri\<close> is \<open>pq(BOXSCORE_URL % uri)\<close>;
  \<^item> \<open>strip_comments d\<close> is \<open>pq(utils._remove_html_comment_tags(d))\<close>;
  \<^item> \<open>SCHEME\<close> and \<open>ELEMENT_INDEX\<close> are \<open>BOXSCORE_SCHEME\<close> and \<open>BOXSCORE_ELEMENT_INDEX\<close>;
  \<^item> \<open>parse_field d field index\<close> is \<open>utils._parse_field(BOXSCORE_SCHEME, d, field, index)\<close>;
  \<^item> \<open>parse_abbreviation\<close> is \<open>utils._parse_abbreviation\<close>;
  \<^item> \<open>int_conv\<close> and \<open>float_conv\<close> are what \<open>int_property_decorator\<close> and
    \<open>float_property_decorator\<close> make of the value the wrapped getter returns.
\<close>

datatype py_float = Float_of_int int | Float_div py_float py_float | Float_round py_float int

record env =
  fetch :: "string \<Rightarrow> error + pq"
  strip_comments :: "pq \<Rightarrow> error + pq"
  SCHEME :: "string \<Rightarrow> string option"
  ELEMENT_INDEX :: "string \<Rightarrow> int option"
  parse_field :: "pq \<Rightarrow> string \<Rightarrow> int \<Rightarrow> error + pyval"
  parse_abbreviation :: "pyval \<Rightarrow> error + string"
  int_conv :: "pyval \<Rightarrow> error + int option"
  float_conv :: "pyval \<Rightarrow> error + py_float option"

text \<open>A dictionary lookup \<open>d[key]\<close>.\<close>

definition py_lookup :: "('k \<Rightarrow> 'v option) \<Rightarrow> 'k \<Rightarrow> error + 'v" where
  "py_lookup d k = (case d k of None \<Rightarrow> Inl KeyError | Some v \<Rightarrow> Inr v)"

text \<open>\<open>[i.text() for i in boxscore(scheme).items()]\<close>.\<close>

definition item_texts :: "pq \<Rightarrow> string \<Rightarrow> string list" where
  "item_texts boxscore scheme = map pq_text (pq_items (pq_call boxscore scheme))"

text \<open>The test on the second line of the block, a chain of \<open>or\<close> in the source.\<close>

definition has_round_label :: "string \<Rightarrow> bool" where
  "has_round_label line =
     (str_in ''eastern first round'' (py_lower line) \<or>
      str_in ''western first round'' (py_lower line) \<or>
      str_in ''eastern second round'' (py_lower line) \<or>
      str_in ''western second round'' (py_lower line) \<or>
      str_in ''eastern conference finals'' (py_lower line) \<or>
      str_in ''western conference finals'' (py_lower line) \<or>
      str_in ''stanley cup final'' (py_lower line))"

text \<open>\<open>Boxscore._parse_game_date_and_location(field, boxscore)\<close>.\<close>

definition parse_game_date_and_location :: "env \<Rightarrow> string \<Rightarrow> pq \<Rightarrow> error + string" where
  "parse_game_date_and_location E field boxscore =
     (case py_lookup (SCHEME E) field of
        Inl e \<Rightarrow> Inl e
      | Inr scheme \<Rightarrow>
          (case py_getitem (item_texts boxscore scheme) 0 of
             Inl e \<Rightarrow> Inl e
           | Inr item0 \<Rightarrow>
               (let game_info = py_split (CHR 0x0A) item0
                in case py_lookup (ELEMENT_INDEX E) field of
                     Inl e \<Rightarrow> Inl e
                   | Inr index \<Rightarrow>
                       (case py_getitem game_info 1 of
                          Inl e \<Rightarrow> Inl e
                        | Inr line1 \<Rightarrow>
                            (let index =
                                   (if has_round_label line1
                                    then (if field \<noteq> ''date'' \<and> field \<noteq> ''time''
                                          then index + 1 else index)
                                    else index)
                             in case py_getitem game_info index of
                                  Inr v \<Rightarrow> Inr v
                                | Inl e \<Rightarrow> if e = IndexError then Inr [] else Inl e)))))"

text \<open>\<open>Boxscore._parse_name(field, boxscore)\<close>.\<close>

definition parse_name :: "env \<Rightarrow> string \<Rightarrow> pq \<Rightarrow> error + pq" where
  "parse_name E field boxscore =
     (case py_lookup (SCHEME E) field of
        Inl e \<Rightarrow> Inl e
      | Inr scheme \<Rightarrow> Inr (pq_call boxscore scheme))"

text \<open>The attributes \<open>__init__\<close> sets to \<open>None\<close>, in its order, after \<open>_uri\<close>.\<close>

definition boxscore_none_fields :: "string list" where
  "boxscore_none_fields =
     [''_date'', ''_time'', ''_arena'', ''_attendance'', ''_duration'', ''_away_name'',
      ''_home_name'', ''_winner'', ''_winning_name'', ''_winning_abbr'', ''_losing_name'',
      ''_losing_abbr'', ''_away_goals'', ''_away_assists'', ''_away_points'',
      ''_away_penalties_in_minutes'', ''_away_even_strength_goals'',
      ''_away_power_play_goals'', ''_away_short_handed_goals'',
      ''_away_game_winning_goals'', ''_away_even_strength_assists'',
      ''_away_power_play_assists'', ''_away_short_handed_assists'', ''_away_shots_on_goal'',
      ''_away_shooting_percentage'', ''_away_saves'', ''_away_save_percentage'',
      ''_away_shutout'', ''_home_goals'', ''_home_assists'', ''_home_points'',
      ''_home_penalties_in_minutes'', ''_home_even_strength_goals'',
      ''_home_power_play_goals'', ''_home_short_handed_goals'',
      ''_home_game_winning_goals'', ''_home_even_strength_assists'',
      ''_home_power_play_assists'', ''_home_short_handed_assists'', ''_home_shots_on_goal'',
      ''_home_shooting_percentage'', ''_home_saves'', ''_home_save_percentage'',
      ''_home_shutout'']"

definition Boxscore_new :: "string \<Rightarrow> pyobj" where
  "Boxscore_new uri = (''_uri'', PStr uri) # map (\<lambda>f. (f, PNone)) boxscore_none_fields"

text \<open>\<open>Boxscore._retrieve_html_page(uri)\<close>: the bare \<open>except\<close> turns every failure of the
  fetch into \<open>None\<close>.\<close>

definition retrieve_html_page :: "env \<Rightarrow> string \<Rightarrow> error + pq option" where
  "retrieve_html_page E uri =
     (case fetch E uri of
        Inl e \<Rightarrow> Inr None
      | Inr url_data \<Rightarrow>
          (case strip_comments E url_data of
             Inl e \<Rightarrow> Inl e
           | Inr d \<Rightarrow> Inr (Some d)))"

definition fields_to_special_parse :: "string list" where
  "fields_to_special_parse =
     [''away_even_strength_assists'', ''away_power_play_assists'',
      ''away_short_handed_assists'', ''away_game_winning_goals'', ''away_saves'',
      ''away_save_percentage'', ''away_shutout'', ''home_even_strength_assists'',
      ''home_power_play_assists'', ''home_short_handed_assists'',
      ''home_game_winning_goals'', ''home_saves'', ''home_save_percentage'',
      ''home_shutout'']"

text \<open>One pass of the loop \<open>for field in self.__dict__\<close> of \<open>_parse_game_data\<close>.\<close>

definition parse_one_field :: "env \<Rightarrow> pq \<Rightarrow> pyobj \<Rightarrow> string \<Rightarrow> error + pyobj" where
  "parse_one_field E boxscore self field =
     (let short_field = drop 1 field
      in if short_field = ''winner'' \<or> short_field = ''winning_name'' \<or>
            short_field = ''winning_abbr'' \<or> short_field = ''losing_name'' \<or>
            short_field = ''losing_abbr'' \<or> short_field = ''uri''
         then Inr self
         else if short_field = ''date'' \<or> short_field = ''time'' \<or>
            short_field = ''arena'' \<or> short_field = ''attendance'' \<or>
            short_field = ''time_of_day'' \<or> short_field = ''duration''
         then (case parse_game_date_and_location E short_field boxscore of
                 Inl e \<Rightarrow> Inl e
               | Inr v \<Rightarrow> Inr (setattr self field (PStr v)))
         else if short_field = ''away_name'' \<or> short_field = ''home_name''
         then (case parse_name E short_field boxscore of
                 Inl e \<Rightarrow> Inl e
               | Inr v \<Rightarrow> Inr (setattr self field (PTag v)))
         else if short_field \<in> set fields_to_special_parse
         then (case py_lookup (SCHEME E) short_field of
                 Inl e \<Rightarrow> Inl e
               | Inr scheme \<Rightarrow> Inr (setattr self field (PList (item_texts boxscore scheme))))
         else (let index = (case ELEMENT_INDEX E short_field of None \<Rightarrow> 0 | Some i \<Rightarrow> i)
               in case parse_field E boxscore short_field index of
                    Inl e \<Rightarrow> Inl e
                  | Inr v \<Rightarrow> Inr (setattr self field v)))"

fun parse_fields :: "env \<Rightarrow> pq \<Rightarrow> string list \<Rightarrow> pyobj \<Rightarrow> error + pyobj" where
  "parse_fields E boxscore [] self = Inr self"
| "parse_fields E boxscore (field # others) self =
     (case parse_one_field E boxscore self field of
        Inl e \<Rightarrow> Inl e
      | Inr self' \<Rightarrow> parse_fields E boxscore others self')"

text \<open>
  The two counts set after the loop. \<open>next\<close> on the exhausted iterator raises
  \<open>StopIteration\<close>.
\<close>

definition count_away :: "env \<Rightarrow> pq \<Rightarrow> pyobj \<Rightarrow> error + pyobj" where
  "count_away E boxscore self =
     (case py_lookup (SCHEME E) ''away_skaters'' of
        Inl e \<Rightarrow> Inl e
      | Inr sk \<Rightarrow>
          (let self = setattr self ''_away_skaters'' (PInt (int (pq_len (pq_call boxscore sk))))
           in case py_lookup (SCHEME E) ''away_goalies'' of
                Inl e \<Rightarrow> Inl e
              | Inr go \<Rightarrow>
                  (case pq_items (pq_call boxscore go) of
                     first # second # rest \<Rightarrow>
                       Inr (setattr self ''_away_goalies''
                              (PInt (int (pq_len (pq_call second ''tbody tr'')))))
                   | _ \<Rightarrow> Inl StopIteration)))"

text \<open>
  \<open>Boxscore._parse_game_data(uri)\<close>. \<open>not boxscore\<close> holds for \<open>None\<close> and for a selection
  of no element.
\<close>

definition parse_game_data :: "env \<Rightarrow> string \<Rightarrow> pyobj \<Rightarrow> error + pyobj" where
  "parse_game_data E uri self =
     (case retrieve_html_page E uri of
        Inl e \<Rightarrow> Inl e
      | Inr None \<Rightarrow> Inr self
      | Inr (Some boxscore) \<Rightarrow>
          if pq_len boxscore = 0 then Inr self
          else (case parse_fields E boxscore (map fst self) self of
                  Inl e \<Rightarrow> Inl e
                | Inr self' \<Rightarrow> count_away E boxscore self'))"

text \<open>\<open>Boxscore(uri)\<close>.\<close>

definition Boxscore_init :: "env \<Rightarrow> string \<Rightarrow> error + pyobj" where
  "Boxscore_init E uri = parse_game_data E uri (Boxscore_new uri)"

section \<open>nhl/boxscore.py: the accessors\<close>

text \<open>A string method called on an attribute: only a \<open>str\<close> has it.\<close>

definition as_str :: "pyval \<Rightarrow> error + string" where
  "as_str v = (case v of PStr s \<Rightarrow> Inr s | _ \<Rightarrow> Inl AttributeError)"

definition str_attr :: "pyobj \<Rightarrow> string \<Rightarrow> error + string" where
  "str_attr self name = (case getattr self name of Inl e \<Rightarrow> Inl e | Inr v \<Rightarrow> as_str v)"

text \<open>\<open>sep.join(parts)\<close>.\<close>

fun py_join :: "string \<Rightarrow> string list \<Rightarrow> string" where
  "py_join sep [] = []"
| "py_join sep [x] = x"
| "py_join sep (x # y # ys) = x @ sep @ py_join sep (y # ys)"

text \<open>\<open>s.replace(old, '')\<close> for a non-empty \<open>old\<close>: its occurrences go, from the left.\<close>

fun py_remove :: "string \<Rightarrow> string \<Rightarrow> string" where
  "py_remove old [] = []"
| "py_remove old (c # cs) =
     (if old \<noteq> [] \<and> prefix old (c # cs)
      then py_remove old (drop (length old - 1) cs)
      else c # py_remove old cs)"

definition Boxscore_date :: "pyobj \<Rightarrow> error + string" where
  "Boxscore_date self =
     (case str_attr self ''_date'' of
        Inl e \<Rightarrow> Inl e
      | Inr s \<Rightarrow> (let date = py_split (CHR '','') s in Inr (py_join '','' (butlast date))))"

definition Boxscore_time :: "pyobj \<Rightarrow> error + string" where
  "Boxscore_time self =
     (case str_attr self ''_time'' of
        Inl e \<Rightarrow> Inl e
      | Inr s \<Rightarrow> (let time = py_split (CHR '','') s in Inr (py_strip (last time))))"

definition Boxscore_arena :: "pyobj \<Rightarrow> error + string" where
  "Boxscore_arena self =
     (case str_attr self ''_arena'' of
        Inl e \<Rightarrow> Inl e
      | Inr s \<Rightarrow> Inr (py_remove ''Arena: '' s))"

definition Boxscore_duration :: "pyobj \<Rightarrow> error + string" where
  "Boxscore_duration self =
     (case str_attr self ''_duration'' of
        Inl e \<Rightarrow> Inl e
      | Inr s \<Rightarrow> Inr (py_remove ''Game Duration: '' s))"

text \<open>
  Modelled from the spec: \<open>int_property_decorator\<close> and \<open>float_property_decorator\<close> of
  decorators.py, which is not among the sources. The wrapper calls the getter it wraps and
  coerces the value the getter returns (section 4.3); the coercion itself is the
  environment's \<open>int_conv\<close> or \<open>float_conv\<close>, whose result is a number, \<open>None\<close> or an
  exception.
\<close>

definition int_property_decorator ::
  "env \<Rightarrow> (pyobj \<Rightarrow> error + pyval) \<Rightarrow> pyobj \<Rightarrow> error + int option" where
  "int_property_decorator E func self =
     (case func self of Inl e \<Rightarrow> Inl e | Inr v \<Rightarrow> int_conv E v)"

definition float_property_decorator ::
  "env \<Rightarrow> (pyobj \<Rightarrow> error + pyval) \<Rightarrow> pyobj \<Rightarrow> error + py_float option" where
  "float_property_decorator E func self =
     (case func self of Inl e \<Rightarrow> Inl e | Inr v \<Rightarrow> float_conv E v)"

text \<open>The getter \<open>attendance\<close> wraps, and the property.\<close>

definition attendance_getter :: "pyobj \<Rightarrow> error + pyval" where
  "attendance_getter self =
     (case str_attr self ''_attendance'' of
        Inl e \<Rightarrow> Inl e
      | Inr s \<Rightarrow> Inr (PStr (py_remove '','' (py_remove ''Attendance: '' s))))"

definition Boxscore_attendance :: "env \<Rightarrow> pyobj \<Rightarrow> error + int option" where
  "Boxscore_attendance E self = int_property_decorator E attendance_getter self"

text \<open>The properties whose getter returns the attribute of their name.\<close>

definition int_accessor :: "env \<Rightarrow> string \<Rightarrow> pyobj \<Rightarrow> error + int option" where
  "int_accessor E name self =
     int_property_decorator E (\<lambda>s. getattr s (CHR ''_'' # name)) self"

definition float_accessor :: "env \<Rightarrow> string \<Rightarrow> pyobj \<Rightarrow> error + py_float option" where
  "float_accessor E name self =
     float_property_decorator E (\<lambda>s. getattr s (CHR ''_'' # name)) self"

text \<open>
  Modelled from the spec: the constants \<open>HOME\<close> and \<open>AWAY\<close> of sportsreference/constants.py,
  which is not among the sources, as two values of an enumeration (section 4.3).
\<close>

datatype side = HOME | AWAY

text \<open>\<open>a > b\<close> on what the integer properties return: \<open>None\<close> is not ordered.\<close>

definition py_gt :: "int option \<Rightarrow> int option \<Rightarrow> error + bool" where
  "py_gt a b = (case (a, b) of (Some x, Some y) \<Rightarrow> Inr (x > y) | _ \<Rightarrow> Inl TypeError)"

definition Boxscore_winner :: "env \<Rightarrow> pyobj \<Rightarrow> error + side" where
  "Boxscore_winner E self =
     (case int_accessor E ''home_goals'' self of
        Inl e \<Rightarrow> Inl e
      | Inr h \<Rightarrow>
          (case int_accessor E ''away_goals'' self of
             Inl e \<Rightarrow> Inl e
           | Inr a \<Rightarrow>
               (case py_gt h a of
                  Inl e \<Rightarrow> Inl e
                | Inr b \<Rightarrow> if b then Inr HOME else Inr AWAY)))"

text \<open>\<open>self._home_name.text()\<close>: only a selection has the method.\<close>

definition name_text :: "pyobj \<Rightarrow> string \<Rightarrow> error + string" where
  "name_text self name =
     (case getattr self name of
        Inl e \<Rightarrow> Inl e
      | Inr v \<Rightarrow> (case v of PTag p \<Rightarrow> Inr (pq_text p) | _ \<Rightarrow> Inl AttributeError))"

definition name_abbr :: "env \<Rightarrow> pyobj \<Rightarrow> string \<Rightarrow> error + string" where
  "name_abbr E self name =
     (case getattr self name of Inl e \<Rightarrow> Inl e | Inr v \<Rightarrow> parse_abbreviation E v)"

definition Boxscore_winning_name :: "env \<Rightarrow> pyobj \<Rightarrow> error + string" where
  "Boxscore_winning_name E self =
     (case Boxscore_winner E self of
        Inl e \<Rightarrow> Inl e
      | Inr w \<Rightarrow> if w = HOME then name_text self ''_home_name''
                 else name_text self ''_away_name'')"

definition Boxscore_winning_abbr :: "env \<Rightarrow> pyobj \<Rightarrow> error + string" where
  "Boxscore_winning_abbr E self =
     (case Boxscore_winner E self of
        Inl e \<Rightarrow> Inl e
      | Inr w \<Rightarrow> if w = HOME then name_abbr E self ''_home_name''
                 else name_abbr E self ''_away_name'')"

definition Boxscore_losing_name :: "env \<Rightarrow> pyobj \<Rightarrow> error + string" where
  "Boxscore_losing_name E self =
     (case Boxscore_winner E self of
        Inl e \<Rightarrow> Inl e
      | Inr w \<Rightarrow> if w = HOME then name_text self ''_away_name''
                 else name_text self ''_home_name'')"

definition Boxscore_losing_abbr :: "env \<Rightarrow> pyobj \<Rightarrow> error + string" where
  "Boxscore_losing_abbr E self =
     (case Boxscore_winner E self of
        Inl e \<Rightarrow> Inl e
      | Inr w \<Rightarrow> if w = HOME then name_abbr E self ''_away_name''
                 else name_abbr E self ''_home_name'')"

subsection \<open>Save percentages\<close>

text \<open>
  A Python float is an IEEE double. Its arithmetic stays symbolic: \<open>Float_of_int n\<close> is
  \<open>float(n)\<close> (so \<open>Float_of_int 0\<close> is \<open>0.0\<close>), \<open>Float_div\<close> the quotient, \<open>Float_round x 3\<close> is
  \<open>round(x, 3)\<close>. \<open>float(n)\<close> raises \<open>OverflowError\<close> when \<open>n\<close> is beyond the doubles, and
  \<open>float(None)\<close> raises \<open>TypeError\<close>. The quotient raises \<open>ZeroDivisionError\<close> when the
  divisor is \<open>0.0\<close>, which \<open>float(d)\<close> is for \<open>d = 0\<close> only.
\<close>

definition float_limit :: int where
  "float_limit = 2 ^ 1024 - 2 ^ 970"

definition float_of_int :: "int \<Rightarrow> error + py_float" where
  "float_of_int n = (if \<bar>n\<bar> < float_limit then Inr (Float_of_int n) else Inl OverflowError)"

definition float_of_opt :: "int option \<Rightarrow> error + py_float" where
  "float_of_opt v = (case v of None \<Rightarrow> Inl TypeError | Some n \<Rightarrow> float_of_int n)"

text \<open>The body of the \<open>try\<close>: \<open>round(float(saves) / float(shots), 3)\<close>, operands left to
  right.\<close>

definition save_pct_body ::
  "(error + int option) \<Rightarrow> (error + int option) \<Rightarrow> error + py_float" where
  "save_pct_body saves shots =
     (case saves of
        Inl e \<Rightarrow> Inl e
      | Inr s \<Rightarrow>
          (case float_of_opt s of
             Inl e \<Rightarrow> Inl e
           | Inr fs \<Rightarrow>
               (case shots of
                  Inl e \<Rightarrow> Inl e
                | Inr d \<Rightarrow>
                    (case float_of_opt d of
                       Inl e \<Rightarrow> Inl e
                     | Inr fd \<Rightarrow>
                         if d = Some 0 then Inl ZeroDivisionError
                         else Inr (Float_round (Float_div fs fd) 3)))))"

text \<open>\<open>except ZeroDivisionError: return 0.0\<close>.\<close>

definition save_pct :: "(error + int option) \<Rightarrow> (error + int option) \<Rightarrow> error + py_float" where
  "save_pct saves shots =
     (case save_pct_body saves shots of
        Inl e \<Rightarrow> if e = ZeroDivisionError then Inr (Float_of_int 0) else Inl e
      | Inr x \<Rightarrow> Inr x)"

definition Boxscore_away_save_percentage :: "env \<Rightarrow> pyobj \<Rightarrow> error + py_float" where
  "Boxscore_away_save_percentage E self =
     save_pct (map_sum id Some (nhl_accessor ''away_saves'' self))
              (int_accessor E ''home_shots_on_goal'' self)"

definition Boxscore_home_save_percentage :: "env \<Rightarrow> pyobj \<Rightarrow> error + py_float" where
  "Boxscore_home_save_percentage E self =
     save_pct (map_sum id Some (nhl_accessor ''home_saves'' self))
              (int_accessor E ''away_shots_on_goal'' self)"

subsection \<open>Reading a property by its name\<close>

datatype pyres = RNone | RInt int | RFloat py_float | RStr string | RSide side

definition res_int :: "error + int option \<Rightarrow> error + pyres" where
  "res_int r = map_sum id (\<lambda>v. case v of None \<Rightarrow> RNone | Some n \<Rightarrow> RInt n) r"

definition res_float :: "error + py_float option \<Rightarrow> error + pyres" where
  "res_float r = map_sum id (\<lambda>v. case v of None \<Rightarrow> RNone | Some x \<Rightarrow> RFloat x) r"

definition nhl_property_names :: "string list" where
  "nhl_property_names =
     away_skater_fields @ away_goalie_fields @ home_skater_fields @ home_goalie_fields"

definition int_property_names :: "string list" where
  "int_property_names =
     [''away_goals'', ''away_assists'', ''away_points'', ''away_penalties_in_minutes'',
      ''away_even_strength_goals'', ''away_power_play_goals'', ''away_short_handed_goals'',
      ''away_shots_on_goal'', ''home_goals'', ''home_assists'', ''home_points'',
      ''home_penalties_in_minutes'', ''home_even_strength_goals'',
      ''home_power_play_goals'', ''home_short_handed_goals'', ''home_shots_on_goal'']"

definition float_property_names :: "string list" where
  "float_property_names = [''away_shooting_percentage'', ''home_shooting_percentage'']"

text \<open>\<open>getattr(boxscore, name)\<close> for the properties of the class (all but \<open>dataframe\<close>).\<close>

definition Boxscore_property :: "env \<Rightarrow> string \<Rightarrow> pyobj \<Rightarrow> error + pyres" where
  "Boxscore_property E name self =
     (if name = ''date'' then map_sum id RStr (Boxscore_date self)
      else if name = ''time'' then map_sum id RStr (Boxscore_time self)
      else if name = ''arena'' then map_sum id RStr (Boxscore_arena self)
      else if name = ''attendance'' then res_int (Boxscore_attendance E self)
      else if name = ''duration'' then map_sum id RStr (Boxscore_duration self)
      else if name = ''winner'' then map_sum id RSide (Boxscore_winner E self)
      else if name = ''winning_name'' then map_sum id RStr (Boxscore_winning_name E self)
      else if name = ''winning_abbr'' then map_sum id RStr (Boxscore_winning_abbr E self)
      else if name = ''losing_name'' then map_sum id RStr (Boxscore_losing_name E self)
      else if name = ''losing_abbr'' then map_sum id RStr (Boxscore_losing_abbr E self)
      else if name = ''away_save_percentage''
        then map_sum id RFloat (Boxscore_away_save_percentage E self)
      else if name = ''home_save_percentage''
        then map_sum id RFloat (Boxscore_home_save_percentage E self)
      else if name \<in> set nhl_property_names then map_sum id RInt (nhl_accessor name self)
      else if name \<in> set int_property_names then res_int (int_accessor E name self)
      else if name \<in> set float_property_names then res_float (float_accessor E name self)
      else Inl AttributeError)"

text \<open>The properties whose answer on a record without data the sources decide.\<close>

definition raising_properties :: "string list" where
  "raising_properties =
     [''date'', ''time'', ''arena'', ''attendance'', ''duration'', ''away_save_percentage'',
      ''home_save_percentage''] @ nhl_property_names"

definition boxscore_properties :: "string list" where
  "boxscore_properties =
     raising_properties @
     [''winner'', ''winning_name'', ''winning_abbr'', ''losing_name'', ''losing_abbr''] @
     int_property_names @ float_property_names"

text \<open>An answer that is no datum: an exception, or \<open>None\<close>.\<close>

definition no_data :: "error + pyres \<Rightarrow> bool" where
  "no_data r = (case r of Inl e \<Rightarrow> True | Inr v \<Rightarrow> v = RNone)"

definition no_number :: "error + 'a option \<Rightarrow> bool" where
  "no_number r = (case r of Inl e \<Rightarrow> True | Inr v \<Rightarrow> v = None)"

text \<open>
  Modelled from the spec: what the coercions of decorators.py, which is not among the
  sources, make of a raw value that is \<open>None\<close>. Sections 3 and 7 leave a typed accessor two
  ways with absent data: to fail with a no-data condition, or to return an explicit empty
  marker, distinct from a number. \<open>spec_env a E\<close> is the environment \<open>E\<close> with its two
  coercions answering \<open>None\<close> in the way \<open>a\<close>; every other raw value they coerce as \<open>E\<close> does.
\<close>

datatype absence = Fails error | Marker

definition absent :: "absence \<Rightarrow> error + 'a option" where
  "absent a = (case a of Fails e \<Rightarrow> Inl e | Marker \<Rightarrow> Inr None)"

definition spec_int_conv :: "absence \<Rightarrow> env \<Rightarrow> pyval \<Rightarrow> error + int option" where
  "spec_int_conv a E v = (case v of PNone \<Rightarrow> absent a | _ \<Rightarrow> int_conv E v)"

definition spec_float_conv :: "absence \<Rightarrow> env \<Rightarrow> pyval \<Rightarrow> error + py_float option" where
  "spec_float_conv a E v = (case v of PNone \<Rightarrow> absent a | _ \<Rightarrow> float_conv E v)"

definition spec_env :: "absence \<Rightarrow> env \<Rightarrow> env" where
  "spec_env a E = E\<lparr>int_conv := spec_int_conv a E, float_conv := spec_float_conv a E\<rparr>"

section \<open>nba/schedule.py\<close>

text \<open>
  What the module takes from utils.py and nba/constants.py, which are not among the
  sources:
  \<^item> \<open>sched_parse_field row name\<close> is \<open>utils._parse_field(SCHEDULE_SCHEME, row, name)\<close>;
  \<^item> \<open>get_stats_table doc selector\<close> is \<open>utils._get_stats_table(doc, selector)\<close>, as the list
    of rows the loop iterates over;
  \<^item> \<open>fetch_schedule abbreviation year\<close> is \<open>pq(SCHEDULE_URL % (abbreviation, year))\<close>;
  \<^item> \<open>find_year\<close> is \<open>utils._find_year_for_season('nba')\<close>.
\<close>

record sched_env =
  sched_parse_field :: "pq \<Rightarrow> string \<Rightarrow> error + pyval"
  get_stats_table :: "pq \<Rightarrow> string \<Rightarrow> error + pq list"
  fetch_schedule :: "string \<Rightarrow> string \<Rightarrow> error + pq"
  find_year :: "error + string"

definition game_fields :: "string list" where
  "game_fields =
     [''_game'', ''_date'', ''_datetime'', ''_boxscore'', ''_location'', ''_opponent_abbr'',
      ''_result'', ''_points_scored'', ''_points_allowed'', ''_field_goals'',
      ''_field_goal_attempts'', ''_field_goal_percentage'', ''_three_point_field_goals'',
      ''_three_point_field_goal_attempts'', ''_three_point_field_goal_percentage'',
      ''_free_throws'', ''_free_throw_attempts'', ''_free_throw_percentage'',
      ''_offensive_rebounds'', ''_total_rebounds'', ''_assists'', ''_steals'', ''_blocks'',
      ''_turnovers'', ''_personal_fouls'', ''_opp_field_goals'',
      ''_opp_field_goal_attempts'', ''_opp_field_goal_percentage'',
      ''_opp_three_point_field_goals'', ''_opp_three_point_field_goal_attempts'',
      ''_opp_three_point_field_goal_percentage'', ''_opp_free_throws'',
      ''_opp_free_throw_attempts'', ''_opp_free_throw_percentage'',
      ''_opp_offensive_rebounds'', ''_opp_total_rebounds'', ''_opp_assists'',
      ''_opp_steals'', ''_opp_blocks'', ''_opp_turnovers'', ''_opp_personal_fouls'']"

definition Game_new :: pyobj where
  "Game_new = map (\<lambda>f. (f, PNone)) game_fields"

text \<open>One pass of the loop of \<open>Game._parse_game_data\<close>.\<close>

definition Game_parse_one :: "sched_env \<Rightarrow> pq \<Rightarrow> pyobj \<Rightarrow> string \<Rightarrow> error + pyobj" where
  "Game_parse_one S game_data self field =
     (let short_name = drop 1 field
      in if short_name = ''datetime'' then Inr self
         else if short_name = ''boxscore'' then Inr (Game_parse_boxscore self game_data)
         else (case sched_parse_field S game_data short_name of
                 Inl e \<Rightarrow> Inl e
               | Inr v \<Rightarrow> Inr (setattr self field v)))"

fun Game_parse_fields :: "sched_env \<Rightarrow> pq \<Rightarrow> string list \<Rightarrow> pyobj \<Rightarrow> error + pyobj" where
  "Game_parse_fields S game_data [] self = Inr self"
| "Game_parse_fields S game_data (field # others) self =
     (case Game_parse_one S game_data self field of
        Inl e \<Rightarrow> Inl e
      | Inr self' \<Rightarrow> Game_parse_fields S game_data others self')"

text \<open>\<open>Game(game_data)\<close>.\<close>

definition Game_init :: "sched_env \<Rightarrow> pq \<Rightarrow> error + pyobj" where
  "Game_init S game_data = Game_parse_fields S game_data (map fst Game_new) Game_new"

definition thead_marker :: string where
  "thead_marker = ''class='' @ dq @ ''thead'' @ dq"

definition over_header_marker :: string where
  "over_header_marker = ''class='' @ dq @ ''over_header thead'' @ dq"

definition is_header_row :: "pq \<Rightarrow> bool" where
  "is_header_row item =
     (str_in thead_marker (pq_str item) \<or> str_in over_header_marker (pq_str item))"

text \<open>\<open>Schedule._add_games_to_schedule(schedule)\<close>; \<open>games\<close> is \<open>self._games\<close>.\<close>

fun add_games_to_schedule :: "sched_env \<Rightarrow> pq list \<Rightarrow> pyobj list \<Rightarrow> error + pyobj list" where
  "add_games_to_schedule S [] games = Inr games"
| "add_games_to_schedule S (item # items) games =
     (if is_header_row item then add_games_to_schedule S items games
      else (case Game_init S item of
              Inl e \<Rightarrow> Inl e
            | Inr game \<Rightarrow> add_games_to_schedule S items (games @ [game])))"

text \<open>\<open>Schedule._pull_schedule(abbreviation, year)\<close>; \<open>not year\<close> holds for \<open>None\<close> and \<open>''\<close>.\<close>

definition resolve_year :: "sched_env \<Rightarrow> string option \<Rightarrow> error + string" where
  "resolve_year S year =
     (case year of
        None \<Rightarrow> find_year S
      | Some y \<Rightarrow> if y = [] then find_year S else Inr y)"

definition pull_schedule ::
  "sched_env \<Rightarrow> string \<Rightarrow> string option \<Rightarrow> pyobj list \<Rightarrow> error + pyobj list" where
  "pull_schedule S abbreviation year games =
     (case resolve_year S year of
        Inl e \<Rightarrow> Inl e
      | Inr year \<Rightarrow>
          (case fetch_schedule S abbreviation year of
             Inl e \<Rightarrow> Inl e
           | Inr doc \<Rightarrow>
               (case get_stats_table S doc ''table#tgl_basic'' of
                  Inl e \<Rightarrow> Inl e
                | Inr schedule \<Rightarrow>
                    (case add_games_to_schedule S schedule games of
                       Inl e \<Rightarrow> Inl e
                     | Inr games \<Rightarrow>
                         if str_in ''tgl_basic_playoffs'' (pq_str doc)
                         then (case get_stats_table S doc ''div#all_tgl_basic_playoffs'' of
                                 Inl e \<Rightarrow> Inl e
                               | Inr playoffs \<Rightarrow> add_games_to_schedule S playoffs games)
                         else Inr games))))"

text \<open>\<open>Schedule(abbreviation, year)\<close>: the list \<open>self._games\<close> of the new instance.\<close>

definition Schedule_init :: "sched_env \<Rightarrow> string \<Rightarrow> string option \<Rightarrow> error + pyobj list" where
  "Schedule_init S abbreviation year = pull_schedule S abbreviation year []"

subsection \<open>\<open>datetime.strptime(s, '%Y-%m-%d')\<close>\<close>

record datetime =
  dt_year :: int
  dt_month :: int
  dt_day :: int
  dt_hour :: int
  dt_minute :: int
  dt_second :: int

text \<open>\<open>%Y\<close> is four digits.\<close>

definition parse_year :: "string \<Rightarrow> (int \<times> string) option" where
  "parse_year s =
     (case s of
        a # b # c # d # rest \<Rightarrow>
          (case (digit_val a, digit_val b, digit_val c, digit_val d) of
             (Some w, Some x, Some y, Some z) \<Rightarrow> Some (1000 * w + 100 * x + 10 * y + z, rest)
           | _ \<Rightarrow> None)
      | _ \<Rightarrow> None)"

text \<open>\<open>%m\<close> is \<open>1[0-2]|0[1-9]|[1-9]\<close>, the alternatives tried in this order.\<close>

definition parse_month :: "string \<Rightarrow> (int \<times> string) option" where
  "parse_month s =
     (case s of
        [] \<Rightarrow> None
      | a # t \<Rightarrow>
          (case t of
             b # rest \<Rightarrow>
               if a = CHR ''1'' \<and> b \<in> set ''012'' then Some (10 + the (digit_val b), rest)
               else if a = CHR ''0'' \<and> b \<in> set ''123456789'' then Some (the (digit_val b), rest)
               else if a \<in> set ''123456789'' then Some (the (digit_val a), t)
               else None
           | [] \<Rightarrow> if a \<in> set ''123456789'' then Some (the (digit_val a), t) else None))"

text \<open>\<open>%d\<close> is \<open>3[0-1]|[1-2]\d|0[1-9]|[1-9]| [1-9]\<close>.\<close>

definition parse_day :: "string \<Rightarrow> (int \<times> string) option" where
  "parse_day s =
     (case s of
        [] \<Rightarrow> None
      | a # t \<Rightarrow>
          (case t of
             b # rest \<Rightarrow>
               if a = CHR ''3'' \<and> b \<in> set ''01'' then Some (30 + the (digit_val b), rest)
               else if a \<in> set ''12'' \<and> digit_val b \<noteq> None
                 then Some (10 * the (digit_val a) + the (digit_val b), rest)
               else if a = CHR ''0'' \<and> b \<in> set ''123456789'' then Some (the (digit_val b), rest)
               else if a \<in> set ''123456789'' then Some (the (digit_val a), t)
               else if a = CHR '' '' \<and> b \<in> set ''123456789'' then Some (the (digit_val b), rest)
               else None
           | [] \<Rightarrow> if a \<in> set ''123456789'' then Some (the (digit_val a), t) else None))"

definition is_leap :: "int \<Rightarrow> bool" where
  "is_leap y = (y mod 4 = 0 \<and> (y mod 100 \<noteq> 0 \<or> y mod 400 = 0))"

definition days_in_month :: "int \<Rightarrow> int \<Rightarrow> int" where
  "days_in_month y m =
     (if m = 2 then (if is_leap y then 29 else 28)
      else if m \<in> {4, 6, 9, 11} then 30 else 31)"

text \<open>
  The whole string must match, and the date must exist (the years start at 1); every other
  string raises \<open>ValueError\<close>.
\<close>

definition strptime_ymd :: "string \<Rightarrow> error + datetime" where
  "strptime_ymd s =
     (case parse_year s of
        None \<Rightarrow> Inl ValueError
      | Some (y, s1) \<Rightarrow>
          (case s1 of
             [] \<Rightarrow> Inl ValueError
           | c1 # s2 \<Rightarrow>
               if c1 \<noteq> CHR ''-'' then Inl ValueError
               else (case parse_month s2 of
                       None \<Rightarrow> Inl ValueError
                     | Some (m, s3) \<Rightarrow>
                         (case s3 of
                            [] \<Rightarrow> Inl ValueError
                          | c2 # s4 \<Rightarrow>
                              if c2 \<noteq> CHR ''-'' then Inl ValueError
                              else (case parse_day s4 of
                                      None \<Rightarrow> Inl ValueError
                                    | Some (d, s5) \<Rightarrow>
                                        if s5 \<noteq> [] \<or> y < 1 \<or> days_in_month y m < d
                                        then Inl ValueError
                                        else Inr \<lparr>dt_year = y, dt_month = m, dt_day = d,
                                                  dt_hour = 0, dt_minute = 0,
                                                  dt_second = 0\<rparr>)))))"

text \<open>The property \<open>Game.datetime\<close>; \<open>strptime\<close> refuses what is not a string.\<close>

definition Game_datetime :: "pyobj \<Rightarrow> error + datetime" where
  "Game_datetime self =
     (case getattr self ''_date'' of
        Inl e \<Rightarrow> Inl e
      | Inr v \<Rightarrow> (case v of PStr s \<Rightarrow> strptime_ymd s | _ \<Rightarrow> Inl TypeError))"

text \<open>\<open>Schedule.__call__(date)\<close> on the list \<open>self._games\<close>.\<close>

fun Schedule_call :: "pyobj list \<Rightarrow> datetime \<Rightarrow> error + pyobj" where
  "Schedule_call [] date = Inl ValueError"
| "Schedule_call (game # games) date =
     (case Game_datetime game of
        Inl e \<Rightarrow> Inl e
      | Inr dt \<Rightarrow>
          if dt_year dt = dt_year date \<and> dt_month dt = dt_month date \<and> dt_day dt = dt_day date
          then Inr game
          else Schedule_call games date)"

section \<open>The properties, as the specification words them\<close>

text \<open>A game is played on the day of a query when its date parses to that day.\<close>

definition same_day :: "datetime \<Rightarrow> pyobj \<Rightarrow> bool" where
  "same_day date game =
     (case Game_datetime game of
        Inl e \<Rightarrow> False
      | Inr dt \<Rightarrow>
          dt_year dt = dt_year date \<and> dt_month dt = dt_month date \<and> dt_day dt = dt_day date)"

text \<open>The builder applied to every row, in order; the first failure is the result.\<close>

fun build_all :: "('a \<Rightarrow> error + 'b) \<Rightarrow> 'a list \<Rightarrow> error + 'b list" where
  "build_all f [] = Inr []"
| "build_all f (x # xs) =
     (case f x of
        Inl e \<Rightarrow> Inl e
      | Inr y \<Rightarrow> (case build_all f xs of Inl e \<Rightarrow> Inl e | Inr ys \<Rightarrow> Inr (y # ys)))"

text \<open>The rows of a schedule page that are no header rows: regular season, then playoffs.\<close>

definition data_rows :: "pq list \<Rightarrow> pq list" where
  "data_rows rows = filter (\<lambda>r. \<not> is_header_row r) rows"

text \<open>The playoff-round labels, and a line that names one, whatever its case.\<close>

definition round_labels :: "string list" where
  "round_labels =
     [''eastern first round'', ''western first round'', ''eastern second round'',
      ''western second round'', ''eastern conference finals'', ''western conference finals'',
      ''stanley cup final'']"

definition names_round :: "string \<Rightarrow> bool" where
  "names_round line = list_ex (\<lambda>label. str_in label (py_lower line)) round_labels"

text \<open>The line of a block at an index; the empty string where the block has no such line.\<close>

definition line_at :: "string list \<Rightarrow> int \<Rightarrow> string" where
  "line_at info i = (case py_getitem info i of Inr v \<Rightarrow> v | Inl e \<Rightarrow> [])"

text \<open>The playoff block of a schedule page: present only if the page holds its marker.\<close>

definition playoff_rows :: "sched_env \<Rightarrow> pq \<Rightarrow> error + pq list" where
  "playoff_rows S doc =
     (if str_in ''tgl_basic_playoffs'' (pq_str doc)
      then get_stats_table S doc ''div#all_tgl_basic_playoffs'' else Inr [])"

text \<open>
  A text that parses as a base-10 integer, and the integer. A numeral is a non-empty run of
  digits and underscores that neither starts nor ends with an underscore, has no two
  underscores in a row, and has at most 4300 digits; its value is that of its digits. The
  text, less the whitespace \<open>int\<close> strips, is a numeral, or a sign and a numeral.
\<close>

definition is_numeral :: "string \<Rightarrow> bool" where
  "is_numeral s =
     (s \<noteq> [] \<and> set s \<subseteq> set ''0123456789_'' \<and> hd s \<noteq> CHR ''_'' \<and> last s \<noteq> CHR ''_''
      \<and> \<not> str_in ''__'' s
      \<and> length (filter (\<lambda>c. c \<noteq> CHR ''_'') s) \<le> int_max_str_digits)"

definition numeral_value :: "string \<Rightarrow> int" where
  "numeral_value s =
     foldl (\<lambda>n c. 10 * n + (int (of_char c) - 48)) 0 (filter (\<lambda>c. c \<noteq> CHR ''_'') s)"

definition int_text :: "string \<Rightarrow> int option" where
  "int_text x =
     (let t = int_strip x
      in if is_numeral t then Some (numeral_value t)
         else if prefix ''+'' t \<and> is_numeral (tl t) then Some (numeral_value (tl t))
         else if prefix ''-'' t \<and> is_numeral (tl t) then Some (- numeral_value (tl t))
         else None)"

text \<open>The cells that parse as base-10 integers, as integers, in order.\<close>

definition int_cells :: "string list \<Rightarrow> int list" where
  "int_cells cells = List.map_filter int_text cells"

text \<open>What may follow the first digit of a numeral.\<close>

definition tail_ok :: "string \<Rightarrow> bool" where
  "tail_ok cs = (set cs \<subseteq> set ''0123456789_'' \<and> (cs \<noteq> [] \<longrightarrow> last cs \<noteq> CHR ''_'')
      \<and> \<not> str_in ''__'' cs)"

section \<open>Example inputs\<close>

text \<open>
  A record with five skater cells and four goalie cells per statistic, three away skaters and
  two away goalies. Two of the goalie cells carry a separator character, which \<open>int\<close>
  refuses; one has spaces around its digit.
\<close>

definition example_saves :: "string list" where
  "example_saves = [CHR 0x1C # ''3'', ''5'', ''4'' @ [CHR 0x1F], '' 7 '']"

definition example_cells :: pyobj where
  "example_cells =
     [(''_away_power_play_assists'', PList [''1'', [], ''2'', [], ''3'']),
      (''_home_power_play_assists'', PList [''1'', [], ''2'', [], ''3'']),
      (''_away_saves'', PList example_saves), (''_home_saves'', PList example_saves),
      (''_away_skaters'', PInt 3), (''_away_goalies'', PInt 2)]"

text \<open>
  A game link as the day's page serialises it (a trailing newline and tab), a schedule row
  whose box-score cell holds a link, and a cell whose markup runs over two lines.
\<close>

definition example_link :: pq where
  "example_link =
     PQ ''Final'' (''<a href='' @ dq @ ''/boxscores/201806070VEG.html'' @ dq @ ''>Final</a>''
                   @ [CHR 0x0A, CHR 0x09]) [] []"

definition example_row :: pq where
  "example_row =
     PQ ''Box Score'' ''<tr>...</tr>'' []
        [(box_score_selector,
          PQ ''Box Score'' (''<td><a href='' @ dq @ ''/boxscores/201710180DET.html'' @ dq
                            @ ''>Box Score</a></td>'') [] [])]"

definition multiline_link :: pq where
  "multiline_link =
     PQ ''Final'' (''<td>'' @ [CHR 0x0A] @ ''<a href=/boxscores/201806070VEG.html>Final</a></td>'')
        [] []"

definition multiline_row :: pq where
  "multiline_row = PQ ''Final'' ''<tr>...</tr>'' [] [(box_score_selector, multiline_link)]"

text \<open>
  An environment: a scheme and an index table for the date and location block, a fetch that
  fails, and a coercion that answers \<open>None\<close> where \<open>int\<close> refuses.
\<close>

definition example_int_conv :: "pyval \<Rightarrow> error + int option" where
  "example_int_conv v =
     (case v of
        PStr s \<Rightarrow> (case py_int s of Inr n \<Rightarrow> Inr (Some n) | Inl e \<Rightarrow> Inr None)
      | _ \<Rightarrow> Inr None)"

definition example_env :: env where
  "example_env =
     \<lparr>fetch = (\<lambda>uri. Inl FetchError),
      strip_comments = Inr,
      SCHEME = map_of [(''date'', ''div.scorebox_meta''), (''time'', ''div.scorebox_meta''),
                       (''arena'', ''div.scorebox_meta''),
                       (''attendance'', ''div.scorebox_meta'')],
      ELEMENT_INDEX = map_of [(''date'', 0), (''time'', 0), (''arena'', 1),
                              (''attendance'', 2)],
      parse_field = (\<lambda>d field index. Inr PNone),
      parse_abbreviation = (\<lambda>v. case v of PTag p \<Rightarrow> Inr (pq_str p) | _ \<Rightarrow> Inl TypeError),
      int_conv = example_int_conv,
      float_conv = (\<lambda>v. Inr None)\<rparr>"

definition page_with_block :: "string \<Rightarrow> pq" where
  "page_with_block block =
     PQ block ''<html>...</html>'' [PQ block ''<html>...</html>'' [] []]
        [(''div.scorebox_meta'', PQ block ''<div>...</div>'' [PQ block ''<div>...</div>'' [] []] [])]"

definition playoff_block :: string where
  "playoff_block = ''Wed, Oct 18, 2017'' @ [CHR 0x0A] @ ''Eastern Conference Finals''
     @ [CHR 0x0A] @ ''Arena: X'' @ [CHR 0x0A] @ ''Attendance: 1,234''"

definition regular_block :: string where
  "regular_block = ''Wed, Oct 18, 2017'' @ [CHR 0x0A] @ ''Arena: X''
     @ [CHR 0x0A] @ ''Attendance: 1,234''"

definition short_block :: string where
  "short_block = ''Wed, Oct 18, 2017'' @ [CHR 0x0A] @ ''Arena: X''"

text \<open>
  A record after a game: goals, shots on goal, the saves of three goalies (one of them away),
  and the two name tags. In \<open>tied_game\<close> both teams have three goals.
\<close>

definition tied_game :: pyobj where
  "tied_game =
     [(''_away_name'', PTag (PQ ''Washington Capitals'' ''/teams/WSH/2018.html'' [] [])),
      (''_home_name'', PTag (PQ ''Vegas Golden Knights'' ''/teams/VEG/2018.html'' [] [])),
      (''_away_goals'', PStr ''3''), (''_home_goals'', PStr ''3''),
      (''_away_shots_on_goal'', PStr ''0''), (''_home_shots_on_goal'', PStr ''30''),
      (''_away_saves'', PList [''27'', ''25'', ''3'']),
      (''_home_saves'', PList [''27'', ''25'', ''3'']),
      (''_away_skaters'', PInt 18), (''_away_goalies'', PInt 1)]"

text \<open>
  A schedule page: two games and a header row in the regular season, a header row and one
  game in the playoff block. The environment reads a field as the text of the cell of its
  name.
\<close>

definition example_game_row :: "string \<Rightarrow> pq" where
  "example_game_row date =
     PQ date (''<tr><td>'' @ date @ ''</td></tr>'') [] [(''date'', PQ date ''<td/>'' [] [])]"

definition example_header_row :: pq where
  "example_header_row = PQ ''Date'' (''<tr '' @ thead_marker @ ''><th>Date</th></tr>'') [] []"

definition example_schedule_page :: pq where
  "example_schedule_page =
     PQ [] ''<html><div id=all_tgl_basic_playoffs>...</div></html>'' []
        [(''table#tgl_basic'',
          PQ [] [] [example_game_row ''2017-10-18'', example_header_row,
                    example_game_row ''2017-10-20''] []),
         (''div#all_tgl_basic_playoffs'',
          PQ [] [] [example_header_row, example_game_row ''2018-04-14''] [])]"

definition example_sched_env :: sched_env where
  "example_sched_env =
     \<lparr>sched_parse_field = (\<lambda>row name.
         case map_of (pq_sub row) name of None \<Rightarrow> Inr PNone | Some cell \<Rightarrow> Inr (PStr (pq_text cell))),
      get_stats_table = (\<lambda>doc selector. Inr (pq_items (pq_call doc selector))),
      fetch_schedule = (\<lambda>abbreviation year. Inr example_schedule_page),
      find_year = Inr ''2018''\<rparr>"

definition example_query :: datetime where
  "example_query =
     \<lparr>dt_year = 2017, dt_month = 10, dt_day = 18, dt_hour = 20, dt_minute = 0, dt_second = 0\<rparr>"

definition example_game :: "string \<Rightarrow> pyobj" where
  "example_game date =
     setattr (setattr Game_new ''_date'' (PStr date)) ''_boxscore'' (PStr [])"

section \<open>The aggregation decorator sums the parseable cells of one side\<close>

lemma sum_cells_acc: "sum_cells num xs = num + sum_list (parsed_cells xs)"
  by (induction xs arbitrary: num)
     (auto simp: parsed_cells_def split: sum.splits)

lemma py_slice_nat:
  "py_slice_to xs (int n) = take n xs" "py_slice_from xs (int n) = drop n xs"
  by (simp_all add: py_slice_to_def py_slice_from_def slice_bound_def)

lemma py_int_examples:
  "py_int ''12'' = Inr 12"
  "py_int '' -1_2 '' = Inr (- 12)"
  "py_int (CHR 0x1C # ''3'') = Inl ValueError"
  "py_int (''4'' @ [CHR 0x1F]) = Inl ValueError"
  "py_int (CHR 0x85 # ''3'' @ [CHR 0xA0]) = Inr 3"
  "py_int [] = Inl ValueError"
  "py_int ''1__2'' = Inl ValueError"
  "py_int ''+ 3'' = Inl ValueError"
  "py_int ''007'' = Inr 7"
  by code_simp+

lemma digit_val_Some:
  "digit_val c = Some v \<Longrightarrow> c \<in> set ''0123456789'' \<and> v = int (of_char c) - 48"
  by (auto simp: digit_val_def split: if_splits)

lemma digit_val_None:
  "digit_val c = None \<Longrightarrow> c \<notin> set ''0123456789''"
  by (auto simp: digit_val_def split: if_splits)

lemma digits_val_spec:
  "digits_val acc cs =
     (if tail_ok cs
      then Some (foldl (\<lambda>n c. 10 * n + (int (of_char c) - 48)) acc (filter (\<lambda>c. c \<noteq> CHR ''_'') cs))
      else None)"
proof (induction acc cs rule: digits_val.induct)
  case (1 acc)
  then show ?case by (simp add: tail_ok_def)
next
  case (2 acc c)
  show ?case
  proof (cases "digit_val c")
    case None
    then have "c \<notin> set ''0123456789''" by (rule digit_val_None)
    then have "\<not> tail_ok [c]" by (auto simp: tail_ok_def)
    with None show ?thesis by simp
  next
    case (Some v)
    then have d: "c \<in> set ''0123456789''" "v = int (of_char c) - 48"
      using digit_val_Some by blast+
    then have "tail_ok [c]" "c \<noteq> CHR ''_''" by (auto simp: tail_ok_def)
    with Some d show ?thesis by (simp add: mult.commute)
  qed
next
  case (3 acc c d ds)
  show ?case
  proof (cases "c = CHR ''_''")
    case True
    show ?thesis
    proof (cases "digit_val d")
      case None
      then have "d \<notin> set ''0123456789''" by (rule digit_val_None)
      then have "\<not> tail_ok (c # d # ds)" using True by (auto simp: tail_ok_def)
      with None True show ?thesis by simp
    next
      case (Some v)
      then have dd: "d \<in> set ''0123456789''" "v = int (of_char d) - 48"
        using digit_val_Some by blast+
      then have nd: "d \<noteq> CHR ''_''" by auto
      have ok: "tail_ok (c # d # ds) = tail_ok ds"
        using True dd(1) nd by (cases ds) (auto simp: tail_ok_def)
      show ?thesis
        using 3(1) [OF True Some] True Some nd dd(2) ok by (simp add: mult.commute)
    qed
  next
    case False
    show ?thesis
    proof (cases "digit_val c")
      case None
      then have "c \<notin> set ''0123456789''" by (rule digit_val_None)
      then have "\<not> tail_ok (c # d # ds)" using False by (auto simp: tail_ok_def)
      with None False show ?thesis by simp
    next
      case (Some v)
      then have dd: "c \<in> set ''0123456789''" "v = int (of_char c) - 48"
        using digit_val_Some by blast+
      have ok: "tail_ok (c # d # ds) = tail_ok (d # ds)"
        using False dd(1) by (auto simp: tail_ok_def)
      show ?thesis
        using 3(2) [OF False Some] False Some dd(2) ok by (simp add: mult.commute)
    qed
  qed
qed


lemma py_int_digits_spec:
  "py_int_digits s = (if is_numeral s then Some (numeral_value s) else None)"
proof (cases s)
  case Nil
  then show ?thesis by (simp add: py_int_digits_def is_numeral_def)
next
  case (Cons c cs)
  show ?thesis
  proof (cases "digit_val c")
    case None
    then have "c \<notin> set ''0123456789''" by (rule digit_val_None)
    then have "\<not> is_numeral (c # cs)" by (auto simp: is_numeral_def)
    with None Cons show ?thesis by (simp add: py_int_digits_def)
  next
    case (Some v)
    then have dd: "c \<in> set ''0123456789''" "v = int (of_char c) - 48"
      using digit_val_Some by blast+
    then have nd: "c \<noteq> CHR ''_''" by auto
    have num: "is_numeral (c # cs) =
        (tail_ok cs \<and> length (filter (\<lambda>c. c \<noteq> CHR ''_'') (c # cs)) \<le> int_max_str_digits)"
      using dd(1) nd by (auto simp: is_numeral_def tail_ok_def)
    have val: "numeral_value (c # cs) =
        foldl (\<lambda>n c. 10 * n + (int (of_char c) - 48)) v (filter (\<lambda>c. c \<noteq> CHR ''_'') cs)"
      using nd dd(2) by (simp add: numeral_value_def)
    show ?thesis
      unfolding Cons num val
      by (simp add: py_int_digits_def Some digits_val_spec not_le)
  qed
qed

lemma sign_not_numeral:
  "\<not> is_numeral (CHR ''-'' # cs)" "\<not> is_numeral (CHR ''+'' # cs)"
  by (simp_all add: is_numeral_def)

lemma py_int_spec:
  "py_int x = (case int_text x of Some n \<Rightarrow> Inr n | None \<Rightarrow> Inl ValueError)"
proof (cases "int_strip x")
  case Nil
  then show ?thesis by (simp add: py_int_def int_text_def is_numeral_def)
next
  case (Cons c cs)
  consider "c = CHR ''-''" | "c = CHR ''+''" | "c \<noteq> CHR ''-''" "c \<noteq> CHR ''+''" by blast
  then show ?thesis
  proof cases
    case 1
    then show ?thesis
      using Cons sign_not_numeral(1) [of cs]
      by (simp add: py_int_def int_text_def py_int_digits_spec)
  next
    case 2
    then show ?thesis
      using Cons sign_not_numeral(2) [of cs]
      by (simp add: py_int_def int_text_def py_int_digits_spec)
  next
    case 3
    then show ?thesis
      using Cons by (auto simp: py_int_def int_text_def py_int_digits_spec Let_def)
  qed
qed

lemma parsed_cells_int_cells: "parsed_cells cells = int_cells cells"
proof -
  have "(\<lambda>x. case py_int x of Inr n \<Rightarrow> Some n | Inl e \<Rightarrow> None) = int_text"
    by (rule ext) (simp add: py_int_spec split: option.splits)
  then show ?thesis by (simp add: parsed_cells_def int_cells_def)
qed

lemma int_cells_example:
  "int_cells [''1'', [], ''2''] = [1, 2]"
  "int_cells [[], ''3''] = [3]"
  "int_cells (take 2 example_saves) = [5]"
  "int_cells (drop 2 example_saves) = [7]"
  by code_simp+

text \<open>
  C1. Let the wrapped getter return the cell list, and let the record hold the away-skater
  count \<open>ns\<close> and the away-goalie count \<open>ng\<close>. On an away skater field the decorator returns
  the sum of the cells among the first \<open>ns\<close> that parse as base-10 integers, on a home skater
  field the sum of those from position \<open>ns\<close> on; on the saves and shutout fields the boundary
  is \<open>ng\<close>. Cells that do not parse are skipped.
\<close>

theorem nhl_int_property_decorator_sums:
  assumes sk: "getattr self ''_away_skaters'' = Inr (PInt (int ns))"
      and go: "getattr self ''_away_goalies'' = Inr (PInt (int ng))"
      and fn: "func self = Inr (PList cells)"
  shows "(fname \<in> set away_skater_fields \<longrightarrow>
            nhl_int_property_decorator fname func self
              = Inr (sum_list (int_cells (take ns cells))))
       \<and> (fname \<in> set home_skater_fields \<longrightarrow>
            nhl_int_property_decorator fname func self
              = Inr (sum_list (int_cells (drop ns cells))))
       \<and> (fname \<in> set away_goalie_fields \<longrightarrow>
            nhl_int_property_decorator fname func self
              = Inr (sum_list (int_cells (take ng cells))))
       \<and> (fname \<in> set home_goalie_fields \<longrightarrow>
            nhl_int_property_decorator fname func self
              = Inr (sum_list (int_cells (drop ng cells))))"
proof -
  have a: "fname \<in> set away_skater_fields \<Longrightarrow>
             \<not> str_in ''home'' fname \<and> fname \<notin> set goalie_names"
    by (auto simp: away_skater_fields_def goalie_names_def)
  have b: "fname \<in> set home_skater_fields \<Longrightarrow>
             str_in ''home'' fname \<and> fname \<notin> set goalie_names"
    by (auto simp: home_skater_fields_def goalie_names_def)
  have c: "fname \<in> set away_goalie_fields \<Longrightarrow>
             \<not> str_in ''home'' fname \<and> fname \<in> set goalie_names"
    by (auto simp: away_goalie_fields_def goalie_names_def)
  have d: "fname \<in> set home_goalie_fields \<Longrightarrow>
             str_in ''home'' fname \<and> fname \<in> set goalie_names"
    by (auto simp: home_goalie_fields_def goalie_names_def)
  show ?thesis
    using a b c d
    by (auto simp: nhl_int_property_decorator_def nhl_sum_subset_def sk go fn sum_cells_acc
          py_slice_nat parsed_cells_int_cells)
qed

theorem nhl_int_property_decorator_sums_witness:
  "nhl_accessor ''away_power_play_assists'' example_cells = Inr 3
   \<and> nhl_accessor ''home_power_play_assists'' example_cells = Inr 3
   \<and> nhl_accessor ''away_saves'' example_cells = Inr 5
   \<and> nhl_accessor ''home_saves'' example_cells = Inr 7"
  using nhl_int_property_decorator_sums [where self = example_cells and ns = 3 and ng = 2
          and func = "\<lambda>s. getattr s ''_away_power_play_assists''"
          and cells = "[''1'', [], ''2'', [], ''3'']"
          and fname = "''away_power_play_assists''"]
        nhl_int_property_decorator_sums [where self = example_cells and ns = 3 and ng = 2
          and func = "\<lambda>s. getattr s ''_home_power_play_assists''"
          and cells = "[''1'', [], ''2'', [], ''3'']"
          and fname = "''home_power_play_assists''"]
        nhl_int_property_decorator_sums [where self = example_cells and ns = 3 and ng = 2
          and func = "\<lambda>s. getattr s ''_away_saves''"
          and cells = example_saves and fname = "''away_saves''"]
        nhl_int_property_decorator_sums [where self = example_cells and ns = 3 and ng = 2
          and func = "\<lambda>s. getattr s ''_home_saves''"
          and cells = example_saves and fname = "''home_saves''"]
  by (simp add: nhl_accessor_def away_skater_fields_def home_skater_fields_def
        away_goalie_fields_def home_goalie_fields_def int_cells_example getattr_def
        example_cells_def)

section \<open>Extracting the boxscore identifier\<close>

lemma match_here_literal:
  "match_here (literal l @ p) s = (if prefix l s then match_here p (drop (length l) s) else None)"
proof (induction l arbitrary: s)
  case Nil
  then show ?case by (simp add: literal_def)
next
  case (Cons a l)
  show ?case
  proof (cases s)
    case Nil
    then show ?thesis by (simp add: literal_def)
  next
    case (Cons c s')
    with Cons.IH [of s'] show ?thesis by (simp add: literal_def)
  qed
qed

lemma match_here_literal_only:
  "match_here (literal l) s = (if prefix l s then Some (drop (length l) s) else None)"
  using match_here_literal [of l "[]" s] by simp

lemma match_here_star_dot:
  "match_here [Star Dot] s = Some (dropWhile (\<lambda>c. c \<noteq> CHR 0x0A) s)"
  by (induction s) auto

lemma literal_match_split:
  assumes "match_here (literal l) s = Some r"
  shows "s = l @ r"
proof -
  from assms have "prefix l s" and "r = drop (length l) s"
    by (auto simp: match_here_literal_only split: if_splits)
  then show ?thesis by (auto simp: prefix_def)
qed

lemma match_here_star_sublist:
  "match_here (Star a # literal l) s = Some r \<Longrightarrow> \<exists>u. s = u @ l @ r"
proof (induction s)
  case Nil
  then have "match_here (literal l) [] = Some r" by simp
  then have "[] = [] @ l @ r" using literal_match_split by fastforce
  then show ?case by blast
next
  case (Cons c s)
  have lit: "\<exists>u. c # s = u @ l @ r" if "match_here (literal l) (c # s) = Some r"
  proof -
    from that have "c # s = [] @ l @ r" using literal_match_split by fastforce
    then show ?thesis by blast
  qed
  show ?case
  proof (cases "atom_matches a c")
    case False
    with Cons.prems lit show ?thesis by simp
  next
    case True
    show ?thesis
    proof (cases "match_here (Star a # literal l) s")
      case None
      with True Cons.prems lit show ?thesis by simp
    next
      case (Some r')
      with True Cons.prems have "r' = r" by simp
      with Some Cons.IH obtain u where "s = u @ l @ r" by blast
      then have "c # s = (c # u) @ l @ r" by simp
      then show ?thesis by blast
    qed
  qed
qed

lemma match_here_star_none:
  assumes "\<not> sublist l s"
  shows "match_here (Star a # literal l) s = None"
proof (cases "match_here (Star a # literal l) s")
  case None
  then show ?thesis .
next
  case (Some r)
  then obtain u where "s = u @ l @ r" using match_here_star_sublist by blast
  then have "sublist l s" unfolding sublist_def by blast
  with assms show ?thesis by simp
qed

lemma match_here_last_occurrence:
  assumes "CHR 0x0A \<notin> set pre" and "\<not> sublist (a # l) (l @ rest)"
  shows "match_here (Star Dot # literal (a # l)) (pre @ (a # l) @ rest) = Some rest"
  using assms(1)
proof (induction pre)
  case Nil
  have n: "match_here (Star Dot # literal (a # l)) (l @ rest) = None"
    using assms(2) by (rule match_here_star_none)
  have m: "match_here (literal (a # l)) (a # l @ rest) = Some rest"
    by (simp add: match_here_literal_only)
  have "match_here (Star Dot # literal (a # l)) (a # l @ rest) = Some rest"
    by (simp only: match_here.simps n m option.case if_True if_False split: if_splits) simp
  then show ?case by simp
next
  case (Cons c pre)
  then have "c \<noteq> CHR 0x0A"
    and "match_here (Star Dot # literal (a # l)) (pre @ (a # l) @ rest) = Some rest"
    by auto
  then show ?case by simp
qed

lemma re_sub_empty_no_match:
  "\<not> sublist l s \<Longrightarrow> re_sub_empty (Star a # literal l) s = s"
proof (induction s)
  case Nil
  then show ?case by simp
next
  case (Cons c s)
  then have ih: "re_sub_empty (Star a # literal l) s = s" by (meson sublist_Cons_right)
  have m: "match_here (Star a # literal l) (c # s) = None"
    using Cons.prems by (rule match_here_star_none)
  show ?case by (simp only: re_sub_empty.simps m option.case ih)
qed

lemma sublist_append_left:
  assumes "sublist x r"
  shows "sublist x (l @ r)"
proof -
  from assms obtain u v where "r = u @ x @ v" unfolding sublist_def by blast
  then have "l @ r = (l @ u) @ x @ v" by simp
  then show ?thesis unfolding sublist_def by blast
qed

lemma re_sub_empty_prefix:
  assumes "CHR 0x0A \<notin> set pre" and "\<not> sublist (a # l) (l @ rest)"
  shows "re_sub_empty (Star Dot # literal (a # l)) (pre @ (a # l) @ rest) = rest"
proof -
  have nr: "\<not> sublist (a # l) rest"
    using assms(2) sublist_append_left by blast
  obtain c s where cs: "pre @ (a # l) @ rest = c # s" by (cases "pre @ (a # l) @ rest") auto
  have len: "length rest < length (c # s)" using cs [symmetric] by simp
  have m: "match_here (Star Dot # literal (a # l)) (c # s) = Some rest"
    using match_here_last_occurrence [OF assms] cs by simp
  have "re_sub_empty (Star Dot # literal (a # l)) (c # s) = re_sub_empty (Star Dot # literal (a # l)) rest"
    by (simp only: re_sub_empty.simps m option.case len if_True)
  then show ?thesis using re_sub_empty_no_match [OF nr] cs by simp
qed


lemma dropWhile_no_newline:
  "CHR 0x0A \<notin> set s \<Longrightarrow> dropWhile (\<lambda>c. c \<noteq> CHR 0x0A) (s @ t) = dropWhile (\<lambda>c. c \<noteq> CHR 0x0A) t"
  by (induction s) auto

lemma match_here_html:
  "match_here html_suffix_re s =
     (if prefix ''.html'' s
      then Some (dropWhile (\<lambda>c. c \<noteq> CHR 0x0A) (drop (length ''.html'') s)) else None)"
  unfolding html_suffix_re_def by (simp only: match_here_literal match_here_star_dot)

lemma html_not_early:
  assumes "\<not> prefix ''.html'' v" and "v \<noteq> []"
  shows "\<not> prefix ''.html'' (v @ ''.html'' @ suf)"
proof
  assume p: "prefix ''.html'' (v @ ''.html'' @ suf)"
  show False
  proof (cases "length v \<ge> 5")
    case True
    then have "length ''.html'' \<le> length v" by simp
    moreover have "prefix v (v @ ''.html'' @ suf)" by simp
    ultimately have "prefix ''.html'' v" using p prefix_length_prefix by blast
    with assms show False by simp
  next
    case False
    then consider a where "v = [a]" | a b where "v = [a, b]" | a b c where "v = [a, b, c]"
      | a b c d where "v = [a, b, c, d]"
      using assms(2)
      by (cases v; cases "tl v"; cases "tl (tl v)"; cases "tl (tl (tl v))"; cases "tl (tl (tl (tl v)))") auto
    then show False using p by cases auto
  qed
qed


lemma re_sub_empty_html_none:
  "CHR ''.'' \<notin> set s \<Longrightarrow> re_sub_empty html_suffix_re s = s"
proof (induction s)
  case Nil
  then show ?case by simp
next
  case (Cons c s)
  then have m: "match_here html_suffix_re (c # s) = None"
    by (auto simp: match_here_html)
  from Cons have ih: "re_sub_empty html_suffix_re s = s" by simp
  show ?case by (simp only: re_sub_empty.simps m option.case ih)
qed

lemma re_sub_empty_html:
  assumes "\<not> sublist ''.html'' ID"
  shows "re_sub_empty html_suffix_re (ID @ ''.html'' @ suf) =
           ID @ re_sub_empty html_suffix_re (dropWhile (\<lambda>c. c \<noteq> CHR 0x0A) suf)"
  using assms
proof (induction ID)
  case Nil
  have m: "match_here html_suffix_re (CHR ''.'' # ''html'' @ suf) =
             Some (dropWhile (\<lambda>c. c \<noteq> CHR 0x0A) suf)"
    by (simp add: match_here_html)
  have len: "length (dropWhile (\<lambda>c. c \<noteq> CHR 0x0A) suf) < length (CHR ''.'' # ''html'' @ suf)"
    using length_dropWhile_le [of "\<lambda>c. c \<noteq> CHR 0x0A" suf] by simp
  have "re_sub_empty html_suffix_re (CHR ''.'' # ''html'' @ suf) =
          re_sub_empty html_suffix_re (dropWhile (\<lambda>c. c \<noteq> CHR 0x0A) suf)"
    by (simp only: re_sub_empty.simps m option.case len if_True)
  then show ?case by simp
next
  case (Cons c ID)
  have np: "\<not> prefix ''.html'' (c # ID)"
    using Cons.prems by (meson prefix_imp_sublist)
  have ns: "\<not> sublist ''.html'' ID"
    using Cons.prems by (meson sublist_Cons_right)
  have "\<not> prefix ''.html'' ((c # ID) @ ''.html'' @ suf)"
    using np by (rule html_not_early) simp
  then have m: "match_here html_suffix_re (c # ID @ ''.html'' @ suf) = None"
    by (simp add: match_here_html)
  have "re_sub_empty html_suffix_re (c # ID @ ''.html'' @ suf) =
          c # re_sub_empty html_suffix_re (ID @ ''.html'' @ suf)"
    by (simp only: re_sub_empty.simps m option.case)
  with Cons.IH [OF ns] show ?case by simp
qed

lemma dropWhile_all: "\<forall>c\<in>set s. P c \<Longrightarrow> dropWhile P s = []"
  by (induction s) auto

lemma dropWhile_all_append: "\<forall>c\<in>set r. P c \<Longrightarrow> dropWhile P (r @ t) = dropWhile P t"
  by (induction r) auto

lemma dropWhile_some_append: "\<not> (\<forall>c\<in>set s. P c) \<Longrightarrow> dropWhile P (s @ r) = dropWhile P s @ r"
  by (induction s) auto

lemma py_strip_trailing:
  assumes "\<forall>c\<in>set r. py_isspace c"
  shows "py_strip (s @ r) = py_strip s"
proof (cases "\<forall>c\<in>set s. py_isspace c")
  case True
  with assms have "\<forall>c\<in>set (s @ r). py_isspace c" by auto
  then have x: "dropWhile py_isspace (s @ r) = []" by (rule dropWhile_all)
  have y: "dropWhile py_isspace s = []" using True by (rule dropWhile_all)
  show ?thesis unfolding py_strip_def x y ..
next
  case False
  then have a: "dropWhile py_isspace (s @ r) = dropWhile py_isspace s @ r"
    by (rule dropWhile_some_append)
  have "\<forall>c\<in>set (rev r). py_isspace c" using assms by simp
  then have b: "dropWhile py_isspace (rev r @ t) = dropWhile py_isspace t" for t
    by (rule dropWhile_all_append)
  show ?thesis by (simp add: py_strip_def a b)
qed

lemma boxscore_uri_strings:
  assumes pre: "CHR 0x0A \<notin> set pre"
      and suf: "CHR 0x0A \<notin> set suf"
      and ws: "\<forall>c\<in>set ws. py_isspace c"
      and last: "\<not> sublist ''/boxscores/'' (''boxscores/'' @ ID @ ''.html'' @ suf @ ws)"
      and id: "\<not> sublist ''.html'' ID"
  shows "re_sub_empty html_suffix_re
             (re_sub_empty boxscores_prefix_re (pre @ ''/boxscores/'' @ ID @ ''.html'' @ suf @ ws))
           = ID @ dropWhile (\<lambda>c. c \<noteq> CHR 0x0A) ws"
proof -
  let ?nl = "\<lambda>c. c \<noteq> CHR 0x0A"
  let ?rest = "ID @ ''.html'' @ suf @ ws"
  have one: "re_sub_empty boxscores_prefix_re (pre @ ''/boxscores/'' @ ?rest) = ?rest"
    unfolding boxscores_prefix_re_def using pre last by (rule re_sub_empty_prefix)
  have two: "re_sub_empty html_suffix_re ?rest
              = ID @ re_sub_empty html_suffix_re (dropWhile ?nl (suf @ ws))"
    using id by (rule re_sub_empty_html)
  have drop: "dropWhile ?nl (suf @ ws) = dropWhile ?nl ws"
    using suf by (rule dropWhile_no_newline)
  have "set (dropWhile ?nl ws) \<subseteq> set ws" by (meson set_dropWhileD subsetI)
  moreover have "\<not> py_isspace (CHR ''.'')" by (simp add: py_isspace_def)
  ultimately have "CHR ''.'' \<notin> set (dropWhile ?nl ws)" using ws by blast
  then have three: "re_sub_empty html_suffix_re (dropWhile ?nl ws) = dropWhile ?nl ws"
    by (rule re_sub_empty_html_none)
  show ?thesis unfolding one two drop three ..
qed

lemma getattr_setattr: "getattr (setattr self name v) name = Inr v"
  by (simp add: getattr_def setattr_def update_conv')

text \<open>
  C3, as amended. Let the markup be \<open>pre/boxscores/ID.html suf ws\<close>, where no newline
  stands in \<open>pre\<close> or \<open>suf\<close>, \<open>ws\<close> is whitespace (newlines allowed), this \<open>/boxscores/\<close> is
  the last one, and \<open>ID\<close> does not contain \<open>.html\<close>. Then \<open>Boxscores._get_boxscore_uri\<close>
  returns \<open>ID\<close> with the whitespace around it stripped, and, when \<open>ws\<close> is empty,
  \<open>Game._parse_boxscore\<close> stores exactly \<open>ID\<close>.
\<close>

theorem boxscore_uri_extraction:
  assumes form: "s = pre @ ''/boxscores/'' @ ID @ ''.html'' @ suf @ ws"
      and pre: "CHR 0x0A \<notin> set pre"
      and suf: "CHR 0x0A \<notin> set suf"
      and ws: "\<forall>c\<in>set ws. py_isspace c"
      and last: "\<not> sublist ''/boxscores/'' (''boxscores/'' @ ID @ ''.html'' @ suf @ ws)"
      and id: "\<not> sublist ''.html'' ID"
  shows "(pq_str url = s \<longrightarrow> get_boxscore_uri url = py_strip ID)
       \<and> (pq_str (pq_call game_data box_score_selector) = s \<and> ws = [] \<longrightarrow>
            getattr (Game_parse_boxscore self game_data) ''_boxscore'' = Inr (PStr ID))"
proof -
  let ?nl = "\<lambda>c. c \<noteq> CHR 0x0A"
  have both: "re_sub_empty html_suffix_re (re_sub_empty boxscores_prefix_re s) = ID @ dropWhile ?nl ws"
    unfolding form using pre suf ws last id by (rule boxscore_uri_strings)
  have "set (dropWhile ?nl ws) \<subseteq> set ws" by (meson set_dropWhileD subsetI)
  then have sp: "\<forall>c\<in>set (dropWhile ?nl ws). py_isspace c" using ws by blast
  have "py_strip (ID @ dropWhile ?nl ws) = py_strip ID"
    using sp by (rule py_strip_trailing)
  then have a: "pq_str url = s \<Longrightarrow> get_boxscore_uri url = py_strip ID"
    by (simp add: get_boxscore_uri_def both)
  have b: "pq_str (pq_call game_data box_score_selector) = s \<Longrightarrow> ws = [] \<Longrightarrow>
            getattr (Game_parse_boxscore self game_data) ''_boxscore'' = Inr (PStr ID)"
    using both by (simp add: Game_parse_boxscore_def getattr_setattr)
  show ?thesis using a b by blast
qed

lemma example_no_marker:
  "\<not> sublist ''/boxscores/'' (''boxscores/'' @ ''201806070VEG'' @ ''.html'' @ (dq @ ''>Final</a>'') @ [CHR 0x0A, CHR 0x09])"
  "\<not> sublist ''.html'' ''201806070VEG''"
  "\<not> sublist ''/boxscores/'' (''boxscores/'' @ ''201710180DET'' @ ''.html'' @ (dq @ ''>Box Score</a></td>'') @ [])"
  "\<not> sublist ''.html'' ''201710180DET''"
  by code_simp+

theorem boxscore_uri_extraction_witness:
  "get_boxscore_uri example_link = ''201806070VEG''
   \<and> getattr (Game_parse_boxscore Game_new example_row) ''_boxscore'' = Inr (PStr ''201710180DET'')"
proof -
  have nl1: "CHR 0x0A \<notin> set (''<a href='' @ dq)" "CHR 0x0A \<notin> set (dq @ ''>Final</a>'')"
    "CHR 0x0A \<notin> set (''<td><a href='' @ dq)" "CHR 0x0A \<notin> set (dq @ ''>Box Score</a></td>'')"
    by (simp_all add: dq_def)
  have ws1: "\<forall>c\<in>set [CHR 0x0A, CHR 0x09]. py_isspace c" "\<forall>c\<in>set ([]::string). py_isspace c"
    by (simp_all add: py_isspace_def)
  have s1: "py_strip ''201806070VEG'' = ''201806070VEG''" by code_simp
  have f1: "pq_str example_link = ''<a href='' @ dq @ ''/boxscores/'' @ ''201806070VEG'' @ ''.html'' @ (dq @ ''>Final</a>'') @ [CHR 0x0A, CHR 0x09]"
    by (simp add: example_link_def)
  have f2: "pq_str (pq_call example_row box_score_selector) = (''<td><a href='' @ dq) @ ''/boxscores/'' @ ''201710180DET'' @ ''.html'' @ (dq @ ''>Box Score</a></td>'') @ []"
    by (simp add: example_row_def pq_call_def)
  have "get_boxscore_uri example_link = py_strip ''201806070VEG''"
    using boxscore_uri_extraction [OF refl nl1(1) nl1(2) ws1(1) example_no_marker(1) example_no_marker(2),
        of example_link] f1 by simp
  moreover have "getattr (Game_parse_boxscore Game_new example_row) ''_boxscore'' = Inr (PStr ''201710180DET'')"
    using boxscore_uri_extraction [OF refl nl1(3) nl1(4) ws1(2) example_no_marker(3) example_no_marker(4),
        of _ example_row Game_new] f2 by simp
  ultimately show ?thesis using s1 by simp
qed

text \<open>
  As stated, for every input of the form, C3 fails: \<open>.\<close> does not match a newline, so a
  line before the one of the link stays in the result.
\<close>

theorem boxscore_uri_multiline_counterexample:
  "pq_str multiline_link
     = (''<td>'' @ [CHR 0x0A] @ ''<a href='') @ ''/boxscores/'' @ ''201806070VEG'' @ ''.html''
       @ ''>Final</a></td>''
   \<and> get_boxscore_uri multiline_link \<noteq> ''201806070VEG''
   \<and> getattr (Game_parse_boxscore Game_new multiline_row) ''_boxscore''
       \<noteq> Inr (PStr ''201806070VEG'')"
  by code_simp

section \<open>The date and location block\<close>

lemma has_round_label_names_round: "has_round_label line = names_round line"
  by (simp add: has_round_label_def names_round_def round_labels_def)

lemma parse_game_date_and_location_lines:
  assumes "SCHEME E field = Some scheme"
      and "item_texts boxscore scheme = item0 # others"
      and "ELEMENT_INDEX E field = Some index"
      and "py_split (CHR 0x0A) item0 = line0 # line1 # lines"
  shows "parse_game_date_and_location E field boxscore =
           Inr (line_at (line0 # line1 # lines)
                  (if names_round line1 \<and> field \<noteq> ''date'' \<and> field \<noteq> ''time''
                   then index + 1 else index))"
  using assms
  by (auto simp: parse_game_date_and_location_def py_lookup_def line_at_def
        has_round_label_names_round py_getitem_def split: sum.splits)


lemma parse_game_date_and_location_no_items:
  assumes "SCHEME E field = Some scheme" and "item_texts boxscore scheme = []"
  shows "parse_game_date_and_location E field boxscore = Inl IndexError"
  using assms by (simp add: parse_game_date_and_location_def py_lookup_def py_getitem_def)

lemma parse_game_date_and_location_one_line:
  assumes "SCHEME E field = Some scheme"
      and "item_texts boxscore scheme = item0 # others"
      and "ELEMENT_INDEX E field = Some index"
      and "length (py_split (CHR 0x0A) item0) < 2"
  shows "parse_game_date_and_location E field boxscore = Inl IndexError"
  using assms by (simp add: parse_game_date_and_location_def py_lookup_def py_getitem_def)

lemma line_at_beyond: "int (length info) \<le> i \<Longrightarrow> line_at info i = []"
  by (simp add: line_at_def py_getitem_def)

lemma two_lines: "2 \<le> length info \<Longrightarrow> \<exists>line0 line1 lines. info = line0 # line1 # lines"
  by (cases info; cases "tl info") auto

text \<open>
  C2. Let the selector match, the field have a configured index, and the block have a
  second line. If that line names a playoff round (whatever its case), every field but
  \<open>date\<close> and \<open>time\<close> is read from its index plus 1, and \<open>date\<close> and \<open>time\<close> from their
  index; if it names none, every field is read from its index.
\<close>

theorem parse_game_date_and_location_shift:
  assumes "SCHEME E field = Some scheme"
      and "item_texts boxscore scheme = item0 # others"
      and "ELEMENT_INDEX E field = Some index"
      and "py_split (CHR 0x0A) item0 = line0 # line1 # lines"
  shows "(names_round line1 \<and> field \<noteq> ''date'' \<and> field \<noteq> ''time'' \<longrightarrow>
            parse_game_date_and_location E field boxscore
              = Inr (line_at (line0 # line1 # lines) (index + 1)))
       \<and> (names_round line1 \<and> (field = ''date'' \<or> field = ''time'') \<longrightarrow>
            parse_game_date_and_location E field boxscore
              = Inr (line_at (line0 # line1 # lines) index))
       \<and> (\<not> names_round line1 \<longrightarrow>
            parse_game_date_and_location E field boxscore
              = Inr (line_at (line0 # line1 # lines) index))"
  using parse_game_date_and_location_lines [OF assms] by auto

lemma example_blocks:
  "py_split (CHR 0x0A) playoff_block
     = [''Wed, Oct 18, 2017'', ''Eastern Conference Finals'', ''Arena: X'', ''Attendance: 1,234'']"
  "py_split (CHR 0x0A) regular_block = [''Wed, Oct 18, 2017'', ''Arena: X'', ''Attendance: 1,234'']"
  "py_split (CHR 0x0A) short_block = [''Wed, Oct 18, 2017'', ''Arena: X'']"
  "names_round ''Eastern Conference Finals''"
  "\<not> names_round ''Arena: X''"
  by code_simp+

lemma example_page: "item_texts (page_with_block block) ''div.scorebox_meta'' = [block]"
  by (simp add: item_texts_def page_with_block_def pq_call_def)

lemma example_env_tables:
  "SCHEME example_env ''date'' = Some ''div.scorebox_meta''"
  "SCHEME example_env ''arena'' = Some ''div.scorebox_meta''"
  "SCHEME example_env ''attendance'' = Some ''div.scorebox_meta''"
  "ELEMENT_INDEX example_env ''date'' = Some 0"
  "ELEMENT_INDEX example_env ''arena'' = Some 1"
  "ELEMENT_INDEX example_env ''attendance'' = Some 2"
  by (simp_all add: example_env_def)

theorem parse_game_date_and_location_shift_witness:
  "parse_game_date_and_location example_env ''arena'' (page_with_block playoff_block)
     = Inr ''Arena: X''
   \<and> parse_game_date_and_location example_env ''date'' (page_with_block playoff_block)
     = Inr ''Wed, Oct 18, 2017''
   \<and> parse_game_date_and_location example_env ''arena'' (page_with_block regular_block)
     = Inr ''Arena: X''"
  using parse_game_date_and_location_shift
          [OF example_env_tables(2) example_page example_env_tables(5) example_blocks(1)]
        parse_game_date_and_location_shift
          [OF example_env_tables(1) example_page example_env_tables(4) example_blocks(1)]
        parse_game_date_and_location_shift
          [OF example_env_tables(2) example_page example_env_tables(5) example_blocks(2)]
  by (simp add: example_blocks(4,5) line_at_def py_getitem_def)

text \<open>
  C4, as amended. With the field in both tables: a selector that matches nothing, and a
  block of a single line, raise \<open>IndexError\<close>, which the function does not catch; a block of
  two lines or more never raises, and an index at or beyond its number of lines gives the
  empty string.
\<close>

theorem parse_game_date_and_location_errors:
  assumes sch: "SCHEME E field = Some scheme"
      and idx: "ELEMENT_INDEX E field = Some index"
  shows "(item_texts boxscore scheme = [] \<longrightarrow>
            parse_game_date_and_location E field boxscore = Inl IndexError)
       \<and> (item_texts boxscore scheme = item0 # others \<and> length (py_split (CHR 0x0A) item0) < 2 \<longrightarrow>
            parse_game_date_and_location E field boxscore = Inl IndexError)
       \<and> (item_texts boxscore scheme = item0 # others \<and> 2 \<le> length (py_split (CHR 0x0A) item0) \<longrightarrow>
            (\<exists>v. parse_game_date_and_location E field boxscore = Inr v)
            \<and> (int (length (py_split (CHR 0x0A) item0)) \<le> index \<longrightarrow>
                 parse_game_date_and_location E field boxscore = Inr []))"
proof -
  have long: "(\<exists>v. parse_game_date_and_location E field boxscore = Inr v)
            \<and> (int (length (py_split (CHR 0x0A) item0)) \<le> index \<longrightarrow>
                 parse_game_date_and_location E field boxscore = Inr [])"
    if it: "item_texts boxscore scheme = item0 # others"
      and len: "2 \<le> length (py_split (CHR 0x0A) item0)"
  proof -
    from len obtain line0 line1 lines where sp: "py_split (CHR 0x0A) item0 = line0 # line1 # lines"
      using two_lines by blast
    show ?thesis
      unfolding parse_game_date_and_location_lines [OF sch it idx sp] sp
      by (simp add: line_at_beyond)
  qed
  show ?thesis
    using parse_game_date_and_location_no_items [OF sch]
          parse_game_date_and_location_one_line [OF sch _ idx] long
    by blast
qed

theorem parse_game_date_and_location_errors_witness:
  "parse_game_date_and_location example_env ''attendance'' pq_empty = Inl IndexError
   \<and> parse_game_date_and_location example_env ''attendance'' (page_with_block ''one line'')
       = Inl IndexError
   \<and> parse_game_date_and_location example_env ''attendance'' (page_with_block short_block)
       = Inr []"
proof -
  have e: "item_texts pq_empty ''div.scorebox_meta'' = []"
    by (simp add: item_texts_def pq_empty_def pq_call_def)
  have one: "py_split (CHR 0x0A) ''one line'' = [''one line'']" by code_simp
  show ?thesis
    using parse_game_date_and_location_errors
            [OF example_env_tables(3) example_env_tables(6), of pq_empty]
          parse_game_date_and_location_errors
            [OF example_env_tables(3) example_env_tables(6), of "page_with_block ''one line''"
               "''one line''" "[]"]
          parse_game_date_and_location_errors
            [OF example_env_tables(3) example_env_tables(6), of "page_with_block short_block"
               short_block "[]"]
    by (simp add: e one example_page example_blocks(3))
qed

text \<open>
  As stated, C4 fails: the block of two lines has fewer lines than the index 2 of
  \<open>attendance\<close> asks for, and the answer is the empty string, not an error.
\<close>

theorem parse_game_date_and_location_swallows_counterexample:
  "ELEMENT_INDEX example_env ''attendance'' = Some 2
   \<and> length (py_split (CHR 0x0A) short_block) = 2
   \<and> parse_game_date_and_location example_env ''attendance'' (page_with_block short_block)
       = Inr []"
  by code_simp

section \<open>A Boxscore whose page cannot be fetched\<close>

lemma map_of_constant:
  "map_of (map (\<lambda>k. (k, c)) ks) k = (if k \<in> set ks then Some c else None)"
  by (induction ks) auto

lemma uri_not_none_field: "''_uri'' \<notin> set boxscore_none_fields"
  by (simp add: boxscore_none_fields_def)

lemma getattr_Boxscore_new:
  "getattr (Boxscore_new uri) f =
     (if f = ''_uri'' then Inr (PStr uri)
      else if f \<in> set boxscore_none_fields then Inr PNone else Inl AttributeError)"
  by (simp add: getattr_def Boxscore_new_def map_of_constant)

lemma retrieve_html_page_failure:
  "fetch E uri = Inl e \<Longrightarrow> retrieve_html_page E uri = Inr None"
  by (simp add: retrieve_html_page_def)

text \<open>
  C5. If the fetch of the page raises, \<open>Boxscore(uri)\<close> returns without raising and the
  instance is as \<open>__init__\<close> first set it: every parsed field is \<open>None\<close>.
\<close>

theorem Boxscore_init_fetch_failure:
  assumes "fetch E uri = Inl e"
  shows "Boxscore_init E uri = Inr (Boxscore_new uri)
       \<and> map fst (Boxscore_new uri) = ''_uri'' # boxscore_none_fields
       \<and> (\<forall>f\<in>set boxscore_none_fields. getattr (Boxscore_new uri) f = Inr PNone)"
proof -
  have "Boxscore_init E uri = Inr (Boxscore_new uri)"
    using retrieve_html_page_failure [OF assms]
    by (simp add: Boxscore_init_def parse_game_data_def)
  moreover have "map fst (Boxscore_new uri) = ''_uri'' # boxscore_none_fields"
    by (simp add: Boxscore_new_def comp_def)
  moreover have "\<forall>f\<in>set boxscore_none_fields. getattr (Boxscore_new uri) f = Inr PNone"
    using uri_not_none_field by (auto simp: getattr_Boxscore_new)
  ultimately show ?thesis by blast
qed

theorem Boxscore_init_fetch_failure_witness:
  "Boxscore_init example_env ''201806070VEG'' = Inr (Boxscore_new ''201806070VEG'')
   \<and> getattr (Boxscore_new ''201806070VEG'') ''_date'' = Inr PNone
   \<and> getattr (Boxscore_new ''201806070VEG'') ''_home_shutout'' = Inr PNone"
proof -
  have f: "fetch example_env ''201806070VEG'' = Inl FetchError"
    by (simp add: example_env_def)
  show ?thesis
    using Boxscore_init_fetch_failure [OF f]
    by (simp add: boxscore_none_fields_def)
qed

section \<open>The properties of a record without data\<close>

lemma none_field_cases:
  "f \<in> set boxscore_none_fields \<Longrightarrow> f \<noteq> ''_uri''"
  using uri_not_none_field by auto

lemma getattr_new_none:
  "f \<in> set boxscore_none_fields \<Longrightarrow> getattr (Boxscore_new uri) f = Inr PNone"
  using none_field_cases [of f] by (simp add: getattr_Boxscore_new)

lemma new_str_attr:
  "f \<in> set boxscore_none_fields \<Longrightarrow> str_attr (Boxscore_new uri) f = Inl AttributeError"
  by (simp add: str_attr_def getattr_new_none as_str_def)

lemma new_counts: "getattr (Boxscore_new uri) ''_away_skaters'' = Inl AttributeError"
  by (simp add: getattr_Boxscore_new boxscore_none_fields_def)

lemma new_nhl_accessor:
  "CHR ''_'' # name \<in> set boxscore_none_fields \<Longrightarrow>
     nhl_accessor name (Boxscore_new uri) = Inl AttributeError"
  by (simp add: nhl_accessor_def nhl_int_property_decorator_def getattr_new_none new_counts)

lemma new_int_accessor:
  "CHR ''_'' # name \<in> set boxscore_none_fields \<Longrightarrow>
     int_accessor E name (Boxscore_new uri) = int_conv E PNone"
  by (simp add: int_accessor_def int_property_decorator_def getattr_new_none)

lemma new_float_accessor:
  "CHR ''_'' # name \<in> set boxscore_none_fields \<Longrightarrow>
     float_accessor E name (Boxscore_new uri) = float_conv E PNone"
  by (simp add: float_accessor_def float_property_decorator_def getattr_new_none)

lemma nhl_names_fields:
  "name \<in> set nhl_property_names \<Longrightarrow> CHR ''_'' # name \<in> set boxscore_none_fields"
  by (auto simp: nhl_property_names_def away_skater_fields_def away_goalie_fields_def
        home_skater_fields_def home_goalie_fields_def boxscore_none_fields_def)

lemma int_names_fields:
  "name \<in> set int_property_names \<Longrightarrow> CHR ''_'' # name \<in> set boxscore_none_fields"
  by (auto simp: int_property_names_def boxscore_none_fields_def)

lemma float_names_fields:
  "name \<in> set float_property_names \<Longrightarrow> CHR ''_'' # name \<in> set boxscore_none_fields"
  by (auto simp: float_property_names_def boxscore_none_fields_def)

lemma fixed_fields:
  "''_date'' \<in> set boxscore_none_fields" "''_time'' \<in> set boxscore_none_fields"
  "''_arena'' \<in> set boxscore_none_fields" "''_attendance'' \<in> set boxscore_none_fields"
  "''_duration'' \<in> set boxscore_none_fields" "''_away_saves'' \<in> set boxscore_none_fields"
  "''_home_saves'' \<in> set boxscore_none_fields" "''_home_goals'' \<in> set boxscore_none_fields"
  "''_away_goals'' \<in> set boxscore_none_fields"
  by (simp_all add: boxscore_none_fields_def)

lemma new_save_pct:
  "Boxscore_away_save_percentage E (Boxscore_new uri) = Inl AttributeError"
  "Boxscore_home_save_percentage E (Boxscore_new uri) = Inl AttributeError"
  by (simp_all add: Boxscore_away_save_percentage_def Boxscore_home_save_percentage_def
        save_pct_def save_pct_body_def new_nhl_accessor fixed_fields)

lemma new_fixed:
  "Boxscore_date (Boxscore_new uri) = Inl AttributeError"
  "Boxscore_time (Boxscore_new uri) = Inl AttributeError"
  "Boxscore_arena (Boxscore_new uri) = Inl AttributeError"
  "Boxscore_duration (Boxscore_new uri) = Inl AttributeError"
  "Boxscore_attendance E (Boxscore_new uri) = Inl AttributeError"
  by (simp_all add: Boxscore_date_def Boxscore_time_def Boxscore_arena_def Boxscore_duration_def
        Boxscore_attendance_def int_property_decorator_def attendance_getter_def new_str_attr
        fixed_fields)

lemma nhl_names_distinct:
  "name \<in> set nhl_property_names \<Longrightarrow>
     name \<notin> set [''date'', ''time'', ''arena'', ''attendance'', ''duration'', ''winner'',
       ''winning_name'', ''winning_abbr'', ''losing_name'', ''losing_abbr'',
       ''away_save_percentage'', ''home_save_percentage'']"
  by (auto simp: nhl_property_names_def away_skater_fields_def away_goalie_fields_def
        home_skater_fields_def home_goalie_fields_def)

lemma int_names_distinct:
  "name \<in> set int_property_names \<Longrightarrow>
     name \<notin> set [''date'', ''time'', ''arena'', ''attendance'', ''duration'', ''winner'',
       ''winning_name'', ''winning_abbr'', ''losing_name'', ''losing_abbr'',
       ''away_save_percentage'', ''home_save_percentage''] \<and> name \<notin> set nhl_property_names"
  by (auto simp: int_property_names_def nhl_property_names_def away_skater_fields_def
        away_goalie_fields_def home_skater_fields_def home_goalie_fields_def)

lemma float_names_distinct:
  "name \<in> set float_property_names \<Longrightarrow>
     name \<notin> set [''date'', ''time'', ''arena'', ''attendance'', ''duration'', ''winner'',
       ''winning_name'', ''winning_abbr'', ''losing_name'', ''losing_abbr'',
       ''away_save_percentage'', ''home_save_percentage''] \<and> name \<notin> set nhl_property_names
     \<and> name \<notin> set int_property_names"
  by (auto simp: float_property_names_def int_property_names_def nhl_property_names_def
        away_skater_fields_def away_goalie_fields_def home_skater_fields_def
        home_goalie_fields_def)

lemma new_nhl_property:
  assumes "name \<in> set nhl_property_names"
  shows "Boxscore_property E name (Boxscore_new uri) = Inl AttributeError"
  using nhl_names_distinct [OF assms] assms
  by (simp add: Boxscore_property_def new_nhl_accessor nhl_names_fields)

lemma new_int_property:
  assumes "name \<in> set int_property_names"
  shows "Boxscore_property E name (Boxscore_new uri) = res_int (int_conv E PNone)"
  using int_names_distinct [OF assms] assms
  by (simp add: Boxscore_property_def new_int_accessor int_names_fields)

lemma new_float_property:
  assumes "name \<in> set float_property_names"
  shows "Boxscore_property E name (Boxscore_new uri) = res_float (float_conv E PNone)"
  using float_names_distinct [OF assms] assms
  by (simp add: Boxscore_property_def new_float_accessor float_names_fields)

lemma new_fixed_property:
  "Boxscore_property E ''date'' (Boxscore_new uri) = Inl AttributeError"
  "Boxscore_property E ''time'' (Boxscore_new uri) = Inl AttributeError"
  "Boxscore_property E ''arena'' (Boxscore_new uri) = Inl AttributeError"
  "Boxscore_property E ''attendance'' (Boxscore_new uri) = Inl AttributeError"
  "Boxscore_property E ''duration'' (Boxscore_new uri) = Inl AttributeError"
  "Boxscore_property E ''away_save_percentage'' (Boxscore_new uri) = Inl AttributeError"
  "Boxscore_property E ''home_save_percentage'' (Boxscore_new uri) = Inl AttributeError"
  by (simp_all add: Boxscore_property_def new_fixed new_save_pct res_int_def)

lemma new_winner:
  assumes "no_number (int_conv E PNone)"
  shows "\<exists>e. Boxscore_winner E (Boxscore_new uri) = Inl e"
  using assms
  by (auto simp: Boxscore_winner_def new_int_accessor fixed_fields no_number_def py_gt_def
        split: sum.splits)

lemma new_winner_property:
  assumes "no_number (int_conv E PNone)"
  shows "no_data (Boxscore_property E ''winner'' (Boxscore_new uri))"
    "no_data (Boxscore_property E ''winning_name'' (Boxscore_new uri))"
    "no_data (Boxscore_property E ''winning_abbr'' (Boxscore_new uri))"
    "no_data (Boxscore_property E ''losing_name'' (Boxscore_new uri))"
    "no_data (Boxscore_property E ''losing_abbr'' (Boxscore_new uri))"
  using new_winner [OF assms, of uri]
  by (auto simp: Boxscore_property_def no_data_def Boxscore_winning_name_def
        Boxscore_winning_abbr_def Boxscore_losing_name_def Boxscore_losing_abbr_def)

lemma no_number_res:
  "no_number r \<Longrightarrow> no_data (res_int r)" "no_number q \<Longrightarrow> no_data (res_float q)"
  by (auto simp: no_number_def no_data_def res_int_def res_float_def split: sum.splits)

lemma no_data_given_coercions:
  assumes "no_number (int_conv E PNone)" and "no_number (float_conv E PNone)"
  shows "\<forall>name\<in>set boxscore_properties.
           no_data (Boxscore_property E name (Boxscore_new uri))"
proof -
  have a: "\<forall>name\<in>set raising_properties.
      Boxscore_property E name (Boxscore_new uri) = Inl AttributeError"
    by (auto simp: raising_properties_def new_fixed_property new_nhl_property)
  show ?thesis
    using a new_winner_property [OF assms(1), of uri] no_number_res(1) [OF assms(1)]
      no_number_res(2) [OF assms(2)]
    by (auto simp: boxscore_properties_def new_int_property new_float_property no_data_def)
qed

lemma spec_env_absent:
  "no_number (int_conv (spec_env a E) PNone)" "no_number (float_conv (spec_env a E) PNone)"
  by (cases a; simp add: spec_env_def spec_int_conv_def spec_float_conv_def absent_def
        no_number_def)+

text \<open>
  C9. On the record of a game without data (every parsed field \<open>None\<close>, as the builder
  leaves it), \<open>date\<close>, \<open>time\<close>, \<open>arena\<close>, \<open>attendance\<close>, \<open>duration\<close>, the two save percentages
  and the twelve aggregated statistics raise \<open>AttributeError\<close>, whatever the coercions of
  decorators.py are. With these coercions as the specification has them on \<open>None\<close> (in either
  of its two ways), no property of the class returns a datum: each raises or returns \<open>None\<close>.
\<close>

theorem no_data_properties:
  "(\<forall>name\<in>set raising_properties.
      Boxscore_property E name (Boxscore_new uri) = Inl AttributeError)
   \<and> (\<forall>name\<in>set boxscore_properties.
        no_data (Boxscore_property (spec_env a E) name (Boxscore_new uri)))"
proof -
  have "\<forall>name\<in>set raising_properties.
      Boxscore_property E name (Boxscore_new uri) = Inl AttributeError"
    by (auto simp: raising_properties_def new_fixed_property new_nhl_property)
  moreover have "\<forall>name\<in>set boxscore_properties.
        no_data (Boxscore_property (spec_env a E) name (Boxscore_new uri))"
    using spec_env_absent by (rule no_data_given_coercions)
  ultimately show ?thesis by blast
qed

theorem no_data_properties_witness:
  "Boxscore_property example_env ''date'' (Boxscore_new ''201806070VEG'') = Inl AttributeError
   \<and> Boxscore_property example_env ''arena'' (Boxscore_new ''201806070VEG'') = Inl AttributeError
   \<and> Boxscore_property example_env ''attendance'' (Boxscore_new ''201806070VEG'')
       = Inl AttributeError
   \<and> no_data (Boxscore_property (spec_env Marker example_env) ''home_goals''
                (Boxscore_new ''201806070VEG''))
   \<and> no_data (Boxscore_property (spec_env (Fails TypeError) example_env) ''winner''
                (Boxscore_new ''201806070VEG''))"
  using no_data_properties [of example_env "''201806070VEG''" Marker]
        no_data_properties [of example_env "''201806070VEG''" "Fails TypeError"]
  by (simp add: raising_properties_def boxscore_properties_def int_property_names_def)

section \<open>Save percentages and the winner\<close>

lemma float_of_int_in_range: "\<bar>n\<bar> < float_limit \<Longrightarrow> float_of_int n = Inr (Float_of_int n)"
  by (simp add: float_of_int_def)

lemma save_pct_numbers:
  assumes "\<bar>s\<bar> < float_limit" and "\<bar>d\<bar> < float_limit"
  shows "save_pct (Inr (Some s)) (Inr (Some d)) =
           Inr (if d = 0 then Float_of_int 0
                else Float_round (Float_div (Float_of_int s) (Float_of_int d)) 3)"
  using assms
  by (simp add: save_pct_def save_pct_body_def float_of_opt_def float_of_int_in_range)

text \<open>
  C6. Let the saves total and the opposing shots-on-goal total be integers within the range
  of a float. Then \<open>away_save_percentage\<close> is \<open>round(float(away saves) / float(home shots on
  goal), 3)\<close>, and \<open>0.0\<close>, returned without raising, when the shots are \<open>0\<close>;
  \<open>home_save_percentage\<close> is the same of the home saves and the away shots on goal.
\<close>

theorem save_percentage_rounded_quotient:
  assumes "\<bar>s\<bar> < float_limit" and "\<bar>d\<bar> < float_limit"
  shows "(nhl_accessor ''away_saves'' self = Inr s
            \<and> int_accessor E ''home_shots_on_goal'' self = Inr (Some d) \<longrightarrow>
          Boxscore_away_save_percentage E self =
            Inr (if d = 0 then Float_of_int 0
                 else Float_round (Float_div (Float_of_int s) (Float_of_int d)) 3))
       \<and> (nhl_accessor ''home_saves'' self = Inr s
            \<and> int_accessor E ''away_shots_on_goal'' self = Inr (Some d) \<longrightarrow>
          Boxscore_home_save_percentage E self =
            Inr (if d = 0 then Float_of_int 0
                 else Float_round (Float_div (Float_of_int s) (Float_of_int d)) 3))"
  using save_pct_numbers [OF assms]
  by (simp add: Boxscore_away_save_percentage_def Boxscore_home_save_percentage_def)

lemma tied_game_totals:
  "nhl_accessor ''away_saves'' tied_game = Inr 27"
  "nhl_accessor ''home_saves'' tied_game = Inr 28"
  "int_accessor example_env ''home_shots_on_goal'' tied_game = Inr (Some 30)"
  "int_accessor example_env ''away_shots_on_goal'' tied_game = Inr (Some 0)"
  "int_accessor example_env ''home_goals'' tied_game = Inr (Some 3)"
  "int_accessor example_env ''away_goals'' tied_game = Inr (Some 3)"
  by code_simp+

lemma small_in_range:
  "\<bar>27\<bar> < float_limit" "\<bar>28\<bar> < float_limit" "\<bar>30\<bar> < float_limit" "\<bar>0\<bar> < float_limit"
  by (simp_all add: float_limit_def)

theorem save_percentage_rounded_quotient_witness:
  "Boxscore_away_save_percentage example_env tied_game
     = Inr (Float_round (Float_div (Float_of_int 27) (Float_of_int 30)) 3)
   \<and> Boxscore_home_save_percentage example_env tied_game = Inr (Float_of_int 0)"
  using save_percentage_rounded_quotient [OF small_in_range(1) small_in_range(3),
          of tied_game example_env]
        save_percentage_rounded_quotient [OF small_in_range(2) small_in_range(4),
          of tied_game example_env]
  by (simp add: tied_game_totals)

text \<open>
  C10. Let the two goal totals be integers. Then \<open>winner\<close> is \<open>HOME\<close> when the home goals
  exceed the away goals and \<open>AWAY\<close> otherwise, a tie included; \<open>winning_name\<close> and
  \<open>winning_abbr\<close> read the name tag of that side, \<open>losing_name\<close> and \<open>losing_abbr\<close> the tag
  of the other side.
\<close>

theorem winner_by_goals:
  assumes "int_accessor E ''home_goals'' self = Inr (Some h)"
      and "int_accessor E ''away_goals'' self = Inr (Some a)"
  shows "Boxscore_winner E self = Inr (if a < h then HOME else AWAY)
       \<and> (h = a \<longrightarrow> Boxscore_winner E self = Inr AWAY)
       \<and> Boxscore_winning_name E self =
           (if a < h then name_text self ''_home_name'' else name_text self ''_away_name'')
       \<and> Boxscore_winning_abbr E self =
           (if a < h then name_abbr E self ''_home_name'' else name_abbr E self ''_away_name'')
       \<and> Boxscore_losing_name E self =
           (if a < h then name_text self ''_away_name'' else name_text self ''_home_name'')
       \<and> Boxscore_losing_abbr E self =
           (if a < h then name_abbr E self ''_away_name'' else name_abbr E self ''_home_name'')"
proof -
  have w: "Boxscore_winner E self = Inr (if a < h then HOME else AWAY)"
    using assms by (simp add: Boxscore_winner_def py_gt_def)
  show ?thesis
    by (simp add: w Boxscore_winning_name_def Boxscore_winning_abbr_def
          Boxscore_losing_name_def Boxscore_losing_abbr_def)
qed

theorem winner_by_goals_witness:
  "Boxscore_winner example_env tied_game = Inr AWAY
   \<and> Boxscore_winning_name example_env tied_game = Inr ''Washington Capitals''
   \<and> Boxscore_losing_name example_env tied_game = Inr ''Vegas Golden Knights''
   \<and> Boxscore_winning_abbr example_env tied_game = Inr ''/teams/WSH/2018.html''"
proof -
  have n: "name_text tied_game ''_away_name'' = Inr ''Washington Capitals''"
    "name_text tied_game ''_home_name'' = Inr ''Vegas Golden Knights''"
    "name_abbr example_env tied_game ''_away_name'' = Inr ''/teams/WSH/2018.html''"
    by code_simp+
  show ?thesis
    using winner_by_goals [OF tied_game_totals(5) tied_game_totals(6)]
    by (simp add: n)
qed

section \<open>Looking a game up by its date\<close>

lemma Schedule_call_find:
  assumes "\<forall>g\<in>set games. \<exists>dt. Game_datetime g = Inr dt"
  shows "Schedule_call games date =
           (case find (same_day date) games of Some g \<Rightarrow> Inr g | None \<Rightarrow> Inl ValueError)"
  using assms
proof (induction games)
  case Nil
  then show ?case by simp
next
  case (Cons g games)
  then obtain dt where dt: "Game_datetime g = Inr dt" by auto
  from Cons have ih: "Schedule_call games date =
           (case find (same_day date) games of Some g \<Rightarrow> Inr g | None \<Rightarrow> Inl ValueError)"
    by simp
  have sd: "same_day date g =
      (dt_year dt = dt_year date \<and> dt_month dt = dt_month date \<and> dt_day dt = dt_day date)"
    by (simp add: same_day_def dt)
  show ?case by (simp add: dt ih sd)
qed

lemma Schedule_call_time_of_day:
  "Schedule_call games (date\<lparr>dt_hour := hh, dt_minute := mm, dt_second := ss\<rparr>)
     = Schedule_call games date"
  by (induction games) (auto split: sum.splits)

text \<open>
  C7. Let the date of every game of the schedule parse. Then the lookup returns the first
  game, in the order of the collection, whose date has the year, month and day of the
  query, and raises \<open>ValueError\<close> when there is none; the time of day of the query plays no
  part.
\<close>

theorem Schedule_call_first_match:
  assumes "\<forall>g\<in>set games. \<exists>dt. Game_datetime g = Inr dt"
  shows "Schedule_call games date =
           (case find (same_day date) games of Some g \<Rightarrow> Inr g | None \<Rightarrow> Inl ValueError)
       \<and> Schedule_call games (date\<lparr>dt_hour := hh, dt_minute := mm, dt_second := ss\<rparr>)
           = Schedule_call games date"
  using Schedule_call_find [OF assms] Schedule_call_time_of_day by simp

lemma example_game_datetime:
  "Game_datetime (example_game ''2017-10-18'')
     = Inr \<lparr>dt_year = 2017, dt_month = 10, dt_day = 18, dt_hour = 0, dt_minute = 0,
            dt_second = 0\<rparr>"
  by code_simp

theorem Schedule_call_first_match_witness:
  "Schedule_call [example_game ''2017-10-18''] example_query = Inr (example_game ''2017-10-18'')
   \<and> Schedule_call [example_game ''2017-10-18''] (example_query\<lparr>dt_day := 19\<rparr>)
       = Inl ValueError"
proof -
  have p: "\<forall>g\<in>set [example_game ''2017-10-18'']. \<exists>dt. Game_datetime g = Inr dt"
    by (simp add: example_game_datetime)
  show ?thesis
    using Schedule_call_first_match [OF p, of example_query]
          Schedule_call_first_match [OF p, of "example_query\<lparr>dt_day := 19\<rparr>"]
    by (simp add: same_day_def example_game_datetime example_query_def)
qed

section \<open>Building a schedule from the rows of a page\<close>

lemma add_games_to_schedule_build:
  "add_games_to_schedule S rows games =
     (case build_all (Game_init S) (data_rows rows) of
        Inl e \<Rightarrow> Inl e
      | Inr new \<Rightarrow> Inr (games @ new))"
proof (induction rows arbitrary: games)
  case Nil
  then show ?case by (simp add: data_rows_def)
next
  case (Cons row rows)
  show ?case
  proof (cases "is_header_row row")
    case True
    then show ?thesis using Cons.IH [of games] by (simp add: data_rows_def)
  next
    case False
    show ?thesis
    proof (cases "Game_init S row")
      case (Inl e)
      with False show ?thesis by (simp add: data_rows_def)
    next
      case (Inr game)
      with False show ?thesis
        using Cons.IH [of "games @ [game]"]
        by (simp add: data_rows_def split: sum.splits)
    qed
  qed
qed

lemma build_all_append:
  "build_all f (xs @ ys) =
     (case build_all f xs of
        Inl e \<Rightarrow> Inl e
      | Inr us \<Rightarrow> (case build_all f ys of Inl e \<Rightarrow> Inl e | Inr vs \<Rightarrow> Inr (us @ vs)))"
  by (induction xs) (auto split: sum.splits)

lemma data_rows_no_header: "\<forall>r\<in>set (data_rows rows). \<not> is_header_row r"
  by (simp add: data_rows_def)

text \<open>
  C8. Let the page be fetched and its regular-season rows and playoff block be found. Then
  the schedule is the builder applied, in order, to the rows that are no header rows: those
  of the regular season first, then those of the playoffs. A header row gives no game, and
  in a schedule that is built every regular-season game stands before every playoff game.
\<close>

theorem pull_schedule_rows:
  assumes yr: "resolve_year S year = Inr y"
      and doc: "fetch_schedule S abbreviation y = Inr doc"
      and reg: "get_stats_table S doc ''table#tgl_basic'' = Inr schedule"
      and po: "playoff_rows S doc = Inr playoffs"
  shows "Schedule_init S abbreviation year
           = build_all (Game_init S) (data_rows schedule @ data_rows playoffs)
       \<and> (\<forall>r\<in>set (data_rows schedule @ data_rows playoffs). \<not> is_header_row r)
       \<and> (\<forall>games. Schedule_init S abbreviation year = Inr games \<longrightarrow>
             (\<exists>regular playoff. games = regular @ playoff
                \<and> build_all (Game_init S) (data_rows schedule) = Inr regular
                \<and> build_all (Game_init S) (data_rows playoffs) = Inr playoff))"
proof -
  have eq: "Schedule_init S abbreviation year
           = build_all (Game_init S) (data_rows schedule @ data_rows playoffs)"
  proof (cases "str_in ''tgl_basic_playoffs'' (pq_str doc)")
    case True
    with po have "get_stats_table S doc ''div#all_tgl_basic_playoffs'' = Inr playoffs"
      by (simp add: playoff_rows_def)
    with True show ?thesis
      by (simp add: Schedule_init_def pull_schedule_def yr doc reg add_games_to_schedule_build
            build_all_append split: sum.splits)
  next
    case False
    with po have "playoffs = []" by (simp add: playoff_rows_def)
    with False show ?thesis
      by (simp add: Schedule_init_def pull_schedule_def yr doc reg add_games_to_schedule_build
            data_rows_def split: sum.splits)
  qed
  have hd: "\<forall>r\<in>set (data_rows schedule @ data_rows playoffs). \<not> is_header_row r"
    using data_rows_no_header by auto
  have order: "\<exists>regular playoff. games = regular @ playoff
                \<and> build_all (Game_init S) (data_rows schedule) = Inr regular
                \<and> build_all (Game_init S) (data_rows playoffs) = Inr playoff"
    if "Schedule_init S abbreviation year = Inr games" for games
    using that unfolding eq build_all_append by (auto split: sum.splits)
  show ?thesis using eq hd order by blast
qed

lemma example_schedule_facts:
  "resolve_year example_sched_env None = Inr ''2018''"
  "fetch_schedule example_sched_env ''DET'' ''2018'' = Inr example_schedule_page"
  "get_stats_table example_sched_env example_schedule_page ''table#tgl_basic''
     = Inr [example_game_row ''2017-10-18'', example_header_row, example_game_row ''2017-10-20'']"
  "playoff_rows example_sched_env example_schedule_page
     = Inr [example_header_row, example_game_row ''2018-04-14'']"
  by code_simp+

lemma example_schedule_rows:
  "data_rows [example_game_row ''2017-10-18'', example_header_row, example_game_row ''2017-10-20'']
     = [example_game_row ''2017-10-18'', example_game_row ''2017-10-20'']"
  "data_rows [example_header_row, example_game_row ''2018-04-14'']
     = [example_game_row ''2018-04-14'']"
  by code_simp+

lemma example_schedule_games:
  "Game_init example_sched_env (example_game_row ''2017-10-18'') = Inr (example_game ''2017-10-18'')"
  "Game_init example_sched_env (example_game_row ''2017-10-20'') = Inr (example_game ''2017-10-20'')"
  "Game_init example_sched_env (example_game_row ''2018-04-14'') = Inr (example_game ''2018-04-14'')"
  by code_simp+

theorem pull_schedule_rows_witness:
  "Schedule_init example_sched_env ''DET'' None
     = Inr [example_game ''2017-10-18'', example_game ''2017-10-20'', example_game ''2018-04-14'']"
  using pull_schedule_rows [OF example_schedule_facts, THEN conjunct1]
  by (simp add: example_schedule_rows example_schedule_games)

end
